theory Spec2Isabelle
  imports Main "HOL-Library.Sublist"
begin

unbundle bit_operations_syntax

section \<open>Data model of package userfn\<close>

text \<open>
  \<^verbatim>\<open>type FnParamKind int\<close> and \<^verbatim>\<open>type ReturnKind int\<close>. The only operations the
  package performs on kinds are equality and bitwise AND, which on two's complement
  machine integers agree with the same operations on \<^typ>\<open>int\<close>; no arithmetic that
  could overflow is done on them.
\<close>

type_synonym FnParamKind = int

definition FnIllegal :: FnParamKind where "FnIllegal = 0x0"
definition FnContext :: FnParamKind where "FnContext = 0x1"
definition FnEventTime :: FnParamKind where "FnEventTime = 0x2"
definition FnValue :: FnParamKind where "FnValue = 0x4"
definition FnIter :: FnParamKind where "FnIter = 0x08"
definition FnReIter :: FnParamKind where "FnReIter = 0x10"
definition FnEmit :: FnParamKind where "FnEmit = 0x20"
definition FnType :: FnParamKind where "FnType = 0x40"

record 't FnParam =
  Kind :: FnParamKind
  T :: 't

type_synonym ReturnKind = int

definition RetIllegal :: ReturnKind where "RetIllegal = 0x0"
definition RetEventTime :: ReturnKind where "RetEventTime = 0x1"
definition RetValue :: ReturnKind where "RetValue = 0x2"
definition RetError :: ReturnKind where "RetError = 0x4"

record 't ReturnParam =
  Kind :: ReturnKind
  T :: 't

text \<open>
  A \<^verbatim>\<open>reflect.Value\<close> as far as \<^verbatim>\<open>New\<close> reads it: its \<^verbatim>\<open>Kind()\<close>, its
  \<^verbatim>\<open>Pointer()\<close> and, through \<^verbatim>\<open>Type()\<close>, the input types \<^verbatim>\<open>In(0..NumIn()-1)\<close> and
  the output types \<^verbatim>\<open>Out(0..NumOut()-1)\<close>. The last three are only read once the kind
  is known to be \<^verbatim>\<open>reflect.Func\<close>.
\<close>

datatype reflect_Kind =
  reflect_Invalid | reflect_Bool | reflect_Int | reflect_Int8 | reflect_Int16 | reflect_Int32 | reflect_Int64
  | reflect_Uint | reflect_Uint8 | reflect_Uint16 | reflect_Uint32 | reflect_Uint64 | reflect_Uintptr
  | reflect_Float32 | reflect_Float64 | reflect_Complex64 | reflect_Complex128
  | reflect_Array | reflect_Chan | reflect_Func | reflect_Interface | reflect_Map | reflect_Ptr | reflect_Slice | reflect_String | reflect_Struct | reflect_UnsafePointer

fun Kind_String :: "reflect_Kind \<Rightarrow> string" where
  "Kind_String reflect_Invalid = ''invalid''"
| "Kind_String reflect_Bool = ''bool''"
| "Kind_String reflect_Int = ''int''"
| "Kind_String reflect_Int8 = ''int8''"
| "Kind_String reflect_Int16 = ''int16''"
| "Kind_String reflect_Int32 = ''int32''"
| "Kind_String reflect_Int64 = ''int64''"
| "Kind_String reflect_Uint = ''uint''"
| "Kind_String reflect_Uint8 = ''uint8''"
| "Kind_String reflect_Uint16 = ''uint16''"
| "Kind_String reflect_Uint32 = ''uint32''"
| "Kind_String reflect_Uint64 = ''uint64''"
| "Kind_String reflect_Uintptr = ''uintptr''"
| "Kind_String reflect_Float32 = ''float32''"
| "Kind_String reflect_Float64 = ''float64''"
| "Kind_String reflect_Complex64 = ''complex64''"
| "Kind_String reflect_Complex128 = ''complex128''"
| "Kind_String reflect_Array = ''array''"
| "Kind_String reflect_Chan = ''chan''"
| "Kind_String reflect_Func = ''func''"
| "Kind_String reflect_Interface = ''interface''"
| "Kind_String reflect_Map = ''map''"
| "Kind_String reflect_Ptr = ''ptr''"
| "Kind_String reflect_Slice = ''slice''"
| "Kind_String reflect_String = ''string''"
| "Kind_String reflect_Struct = ''struct''"
| "Kind_String reflect_UnsafePointer = ''unsafe.Pointer''"

record 't Value =
  ValueKind :: reflect_Kind
  Pointer :: nat
  In :: "'t list"
  Out :: "'t list"

record 't UserFn =
  Name :: string
  Fn :: "'t Value"
  Param :: "'t FnParam list"
  Ret :: "'t ReturnParam list"

text \<open>
  What \<^verbatim>\<open>New\<close> imports and does not define: the canonical types of packages
  \<^verbatim>\<open>reflectx\<close> and \<^verbatim>\<open>typex\<close>, the three element-type tests of \<^verbatim>\<open>typex\<close>, the
  shape tests \<^verbatim>\<open>IsEmit\<close>, \<^verbatim>\<open>IsIter\<close> and \<^verbatim>\<open>IsReIter\<close>, the name
  \<^verbatim>\<open>runtime.FuncForPC(pc).Name()\<close> of a code pointer and the \<^verbatim>\<open>%v\<close> rendering of a
  \<^verbatim>\<open>reflect.Type\<close>. They are parameters of the model; the type of type handles is
  the type variable \<open>'t\<close>.
\<close>

record 't env =
  reflectx_Context :: 't
  typex_EventTimeType :: 't
  reflectx_Type :: 't
  reflectx_Error :: 't
  typex_IsContainer :: "'t \<Rightarrow> bool"
  typex_IsConcrete :: "'t \<Rightarrow> bool"
  typex_IsUniversal :: "'t \<Rightarrow> bool"
  IsEmit :: "'t \<Rightarrow> bool"
  IsIter :: "'t \<Rightarrow> bool"
  IsReIter :: "'t \<Rightarrow> bool"
  FuncForPC_Name :: "nat \<Rightarrow> string"
  Type_String :: "'t \<Rightarrow> string"

type_synonym error = string

section \<open>The query functions\<close>

text \<open>
  Each \<^verbatim>\<open>for i, p := range\<close> loop is a recursion over the slice that carries the
  index \<open>i\<close>; positions are Go \<^verbatim>\<open>int\<close>s, and \<open>-1\<close> is returned when nothing is found.
\<close>

fun Context_range :: "'t FnParam list \<Rightarrow> int \<Rightarrow> int \<times> bool" where
  "Context_range [] i = (-1, False)"
| "Context_range (p # ps) i =
     (if FnParam.Kind p = FnContext then (i, True) else Context_range ps (i + 1))"

definition Context :: "'t UserFn \<Rightarrow> int \<times> bool" where
  "Context u = Context_range (Param u) 0"

fun Type_range :: "'t FnParam list \<Rightarrow> int \<Rightarrow> int \<times> bool" where
  "Type_range [] i = (-1, False)"
| "Type_range (p # ps) i =
     (if FnParam.Kind p = FnType then (i, True) else Type_range ps (i + 1))"

definition Type :: "'t UserFn \<Rightarrow> int \<times> bool" where
  "Type u = Type_range (Param u) 0"

fun EventTime_range :: "'t FnParam list \<Rightarrow> int \<Rightarrow> int \<times> bool" where
  "EventTime_range [] i = (-1, False)"
| "EventTime_range (p # ps) i =
     (if FnParam.Kind p = FnEventTime then (i, True) else EventTime_range ps (i + 1))"

definition EventTime :: "'t UserFn \<Rightarrow> int \<times> bool" where
  "EventTime u = EventTime_range (Param u) 0"

fun Error_range :: "'t ReturnParam list \<Rightarrow> int \<Rightarrow> int \<times> bool" where
  "Error_range [] i = (-1, False)"
| "Error_range (p # ps) i =
     (if ReturnParam.Kind p = RetError then (i, True) else Error_range ps (i + 1))"

definition Error :: "'t UserFn \<Rightarrow> int \<times> bool" where
  "Error u = Error_range (Ret u) 0"

fun OutEventTime_range :: "'t ReturnParam list \<Rightarrow> int \<Rightarrow> int \<times> bool" where
  "OutEventTime_range [] i = (-1, False)"
| "OutEventTime_range (p # ps) i =
     (if ReturnParam.Kind p = RetEventTime then (i, True) else OutEventTime_range ps (i + 1))"

definition OutEventTime :: "'t UserFn \<Rightarrow> int \<times> bool" where
  "OutEventTime u = OutEventTime_range (Ret u) 0"

text \<open>
  \<^verbatim>\<open>Params\<close> and \<^verbatim>\<open>Returns\<close>: the loop appends the index to \<^verbatim>\<open>ret\<close> when the
  kind and the mask share a bit.
\<close>

fun Params_range :: "'t FnParam list \<Rightarrow> FnParamKind \<Rightarrow> int \<Rightarrow> int list \<Rightarrow> int list" where
  "Params_range [] mask' i ret = ret"
| "Params_range (p # ps) mask' i ret =
     (if (FnParam.Kind p AND mask') \<noteq> 0
      then Params_range ps mask' (i + 1) (ret @ [i])
      else Params_range ps mask' (i + 1) ret)"

definition Params :: "'t UserFn \<Rightarrow> FnParamKind \<Rightarrow> int list" where
  "Params u mask' = Params_range (Param u) mask' 0 []"

fun Returns_range :: "'t ReturnParam list \<Rightarrow> ReturnKind \<Rightarrow> int \<Rightarrow> int list \<Rightarrow> int list" where
  "Returns_range [] mask' i ret = ret"
| "Returns_range (p # ps) mask' i ret =
     (if (ReturnParam.Kind p AND mask') \<noteq> 0
      then Returns_range ps mask' (i + 1) (ret @ [i])
      else Returns_range ps mask' (i + 1) ret)"

definition Returns :: "'t UserFn \<Rightarrow> ReturnKind \<Rightarrow> int list" where
  "Returns u mask' = Returns_range (Ret u) mask' 0 []"

text \<open>
  \<^verbatim>\<open>SubParams\<close> and \<^verbatim>\<open>SubReturns\<close> read \<^verbatim>\<open>list[index]\<close> with no check of their own.
  Go checks every slice index at run time and panics with an index-out-of-range
  runtime error when it is negative or not below the length; the panic is a value here.
\<close>

datatype panic = IndexOutOfRange int nat

fun SubParams_range :: "'t FnParam list \<Rightarrow> int list \<Rightarrow> 't FnParam list \<Rightarrow> panic + 't FnParam list" where
  "SubParams_range list [] ret = Inr ret"
| "SubParams_range list (index # indices) ret =
     (if 0 \<le> index \<and> index < int (length list)
      then SubParams_range list indices (ret @ [list ! nat index])
      else Inl (IndexOutOfRange index (length list)))"

definition SubParams :: "'t FnParam list \<Rightarrow> int list \<Rightarrow> panic + 't FnParam list" where
  "SubParams list indices = SubParams_range list indices []"

fun SubReturns_range :: "'t ReturnParam list \<Rightarrow> int list \<Rightarrow> 't ReturnParam list \<Rightarrow> panic + 't ReturnParam list" where
  "SubReturns_range list [] ret = Inr ret"
| "SubReturns_range list (index # indices) ret =
     (if 0 \<le> index \<and> index < int (length list)
      then SubReturns_range list indices (ret @ [list ! nat index])
      else Inl (IndexOutOfRange index (length list)))"

definition SubReturns :: "'t ReturnParam list \<Rightarrow> int list \<Rightarrow> panic + 't ReturnParam list" where
  "SubReturns list indices = SubReturns_range list indices []"

section \<open>New\<close>

text \<open>
  The \<^verbatim>\<open>switch\<close> over a parameter type, lines 215 to 233: the first case whose
  condition holds sets \<^verbatim>\<open>kind\<close>; \<open>None\<close> is the \<^verbatim>\<open>default\<close> case, which returns
  from \<^verbatim>\<open>New\<close>. A case with several expressions is taken when any of them holds.
\<close>

definition New_param_switch :: "'t env \<Rightarrow> 't \<Rightarrow> FnParamKind option" where
  "New_param_switch env t =
     (if t = reflectx_Context env then Some FnContext
      else if t = typex_EventTimeType env then Some FnEventTime
      else if t = reflectx_Type env then Some FnType
      else if typex_IsContainer env t \<or> typex_IsConcrete env t \<or> typex_IsUniversal env t
        then Some FnValue
      else if IsEmit env t then Some FnEmit
      else if IsIter env t then Some FnIter
      else if IsReIter env t then Some FnReIter
      else None)"

text \<open>The \<^verbatim>\<open>switch\<close> over a return type, lines 242 to 252.\<close>

definition New_return_switch :: "'t env \<Rightarrow> 't \<Rightarrow> ReturnKind option" where
  "New_return_switch env t =
     (if t = reflectx_Error env then Some RetError
      else if t = typex_EventTimeType env then Some RetEventTime
      else if typex_IsContainer env t \<or> typex_IsConcrete env t \<or> typex_IsUniversal env t
        then Some RetValue
      else None)"

text \<open>
  The two \<^verbatim>\<open>for i := 0; i < n; i++\<close> statements, with the slice built so far as
  accumulator. \<open>Inl\<close> is the early \<^verbatim>\<open>return nil, fmt.Errorf(...)\<close>; the format
  arguments are the name and the type, rendered by \<^verbatim>\<open>%s\<close> and \<^verbatim>\<open>%v\<close>.
\<close>

function New_params :: "'t env \<Rightarrow> string \<Rightarrow> 't list \<Rightarrow> nat \<Rightarrow> 't FnParam list
    \<Rightarrow> error + 't FnParam list" where
  "New_params env name ins i param =
     (if i < length ins then
        (let t = ins ! i in
         case New_param_switch env t of
           None \<Rightarrow> Inl (''bad paramenter type for '' @ name @ '': '' @ Type_String env t)
         | Some kind \<Rightarrow>
             New_params env name ins (i + 1) (param @ [\<lparr>FnParam.Kind = kind, FnParam.T = t\<rparr>]))
      else Inr param)"
  by pat_completeness auto
termination
  by (relation "measure (\<lambda>(env, name, ins, i, param). length ins - i)") auto

declare New_params.simps [simp del]

function New_returns :: "'t env \<Rightarrow> string \<Rightarrow> 't list \<Rightarrow> nat \<Rightarrow> 't ReturnParam list
    \<Rightarrow> error + 't ReturnParam list" where
  "New_returns env name outs i ret =
     (if i < length outs then
        (let t = outs ! i in
         case New_return_switch env t of
           None \<Rightarrow> Inl (''bad return type for '' @ name @ '': '' @ Type_String env t)
         | Some kind \<Rightarrow>
             New_returns env name outs (i + 1) (ret @ [\<lparr>ReturnParam.Kind = kind, ReturnParam.T = t\<rparr>]))
      else Inr ret)"
  by pat_completeness auto
termination
  by (relation "measure (\<lambda>(env, name, outs, i, ret). length outs - i)") auto

declare New_returns.simps [simp del]

text \<open>
  \<^verbatim>\<open>New\<close> returns the pair \<^verbatim>\<open>(*UserFn, error)\<close>; \<open>None\<close> is \<^verbatim>\<open>nil\<close> in either
  component.
\<close>

definition New :: "'t env \<Rightarrow> 't Value \<Rightarrow> 't UserFn option \<times> error option" where
  "New env fn =
     (if ValueKind fn \<noteq> reflect_Func
      then (None, Some (''not a function or method: '' @ Kind_String (ValueKind fn)))
      else
        (let name = FuncForPC_Name env (Pointer fn) in
         case New_params env name (In fn) 0 [] of
           Inl e \<Rightarrow> (None, Some e)
         | Inr param \<Rightarrow>
             (case New_returns env name (Out fn) 0 [] of
                Inl e \<Rightarrow> (None, Some e)
              | Inr ret \<Rightarrow> (Some \<lparr>Name = name, Fn = fn, Param = param, Ret = ret\<rparr>, None))))"

section \<open>A concrete instance of the parameters\<close>

text \<open>
  A small universe of Go types on which the functions above can be run: the basic types
  \<^verbatim>\<open>int\<close>, \<^verbatim>\<open>string\<close> and \<^verbatim>\<open>bool\<close>, the four canonical types, channels, pointers
  and function types.
\<close>

datatype gotype =
  GoInt | GoString | GoBool
  | GoError | GoContext | GoEventTime | GoReflectType
  | GoChan gotype | GoPtr gotype
  | GoFunc "gotype list" "gotype list"

fun join_comma :: "string list \<Rightarrow> string" where
  "join_comma [] = []"
| "join_comma [s] = s"
| "join_comma (s # ss) = s @ '', '' @ join_comma ss"

fun gotype_String :: "gotype \<Rightarrow> string" where
  "gotype_String GoInt = ''int''"
| "gotype_String GoString = ''string''"
| "gotype_String GoBool = ''bool''"
| "gotype_String GoError = ''error''"
| "gotype_String GoContext = ''context.Context''"
| "gotype_String GoEventTime = ''typex.EventTime''"
| "gotype_String GoReflectType = ''reflect.Type''"
| "gotype_String (GoChan t) = ''chan '' @ gotype_String t"
| "gotype_String (GoPtr t) = ''*'' @ gotype_String t"
| "gotype_String (GoFunc ins outs) =
     ''func('' @ join_comma (map gotype_String ins) @ '')'' @
     (case outs of
        [] \<Rightarrow> []
      | [t] \<Rightarrow> '' '' @ gotype_String t
      | _ \<Rightarrow> '' ('' @ join_comma (map gotype_String outs) @ '')'')"

text \<open>
  In this instance the element types are the three basic types: they are concrete, and
  there is no container and no universal type.
\<close>

fun sample_IsConcrete :: "gotype \<Rightarrow> bool" where
  "sample_IsConcrete GoInt = True"
| "sample_IsConcrete GoString = True"
| "sample_IsConcrete GoBool = True"
| "sample_IsConcrete _ = False"

text \<open>
  Modelled from the spec: \<^verbatim>\<open>IsEmit\<close>, \<^verbatim>\<open>IsIter\<close> and \<^verbatim>\<open>IsReIter\<close> are functions of
  package userfn that are not in the source file at hand. Section 4.2 of the
  specification describes them: an emitter is a function type with one to three
  parameters and no result, whose parameters are element types, the first of two or
  three being allowed (of three, required) to be the event-timestamp type; an iterator
  is a function type with one or two pointer parameters to element types and a boolean
  result; a re-iterator is a function type with no parameter whose result is an
  iterator.
\<close>

fun sample_IsEmit :: "gotype \<Rightarrow> bool" where
  "sample_IsEmit (GoFunc [a] []) = sample_IsConcrete a"
| "sample_IsEmit (GoFunc [a, b] []) =
     ((sample_IsConcrete a \<and> sample_IsConcrete b) \<or> (a = GoEventTime \<and> sample_IsConcrete b))"
| "sample_IsEmit (GoFunc [a, b, c] []) =
     (a = GoEventTime \<and> sample_IsConcrete b \<and> sample_IsConcrete c)"
| "sample_IsEmit _ = False"

fun sample_IsIter :: "gotype \<Rightarrow> bool" where
  "sample_IsIter (GoFunc [GoPtr a] [GoBool]) = sample_IsConcrete a"
| "sample_IsIter (GoFunc [GoPtr a, GoPtr b] [GoBool]) = (sample_IsConcrete a \<and> sample_IsConcrete b)"
| "sample_IsIter _ = False"

fun sample_IsReIter :: "gotype \<Rightarrow> bool" where
  "sample_IsReIter (GoFunc [] [t]) = sample_IsIter t"
| "sample_IsReIter _ = False"

text \<open>The code pointer \<open>0\<close> is a function named \<^verbatim>\<open>main.f\<close>, every other one \<^verbatim>\<open>main.g\<close>.\<close>

definition sample_Name :: "nat \<Rightarrow> string" where
  "sample_Name pc = (if pc = 0 then ''main.f'' else ''main.g'')"

definition sample_env :: "gotype env" where
  "sample_env = \<lparr>
     reflectx_Context = GoContext,
     typex_EventTimeType = GoEventTime,
     reflectx_Type = GoReflectType,
     reflectx_Error = GoError,
     typex_IsContainer = (\<lambda>t. False),
     typex_IsConcrete = sample_IsConcrete,
     typex_IsUniversal = (\<lambda>t. False),
     IsEmit = sample_IsEmit,
     IsIter = sample_IsIter,
     IsReIter = sample_IsReIter,
     FuncForPC_Name = sample_Name,
     Type_String = gotype_String \<rparr>"

text \<open>A function value with the given code pointer and signature.\<close>

definition func_value :: "nat \<Rightarrow> 't list \<Rightarrow> 't list \<Rightarrow> 't Value" where
  "func_value pc ins outs = \<lparr>ValueKind = reflect_Func, Pointer = pc, In = ins, Out = outs\<rparr>"

text \<open>A function that takes one parameter of every kind.\<close>

definition sample_all_kinds :: "gotype Value" where
  "sample_all_kinds = func_value 0
     [GoFunc [GoInt] [], GoFunc [GoPtr GoInt] [GoBool], GoFunc [] [GoFunc [GoPtr GoInt] [GoBool]],
      GoContext, GoEventTime, GoReflectType, GoString] []"

text \<open>Two descriptors: one as \<^verbatim>\<open>New\<close> builds it for \<^verbatim>\<open>func(context.Context, string, int) int\<close>, and one with two context parameters and two error returns.\<close>

definition sample_UserFn :: "gotype UserFn" where
  "sample_UserFn = \<lparr>Name = ''main.f'', Fn = func_value 0 [GoContext, GoString, GoInt] [GoInt],
        Param = [\<lparr>FnParam.Kind = FnContext, FnParam.T = GoContext\<rparr>,
                 \<lparr>FnParam.Kind = FnValue, FnParam.T = GoString\<rparr>,
                 \<lparr>FnParam.Kind = FnValue, FnParam.T = GoInt\<rparr>],
        Ret = [\<lparr>ReturnParam.Kind = RetValue, ReturnParam.T = GoInt\<rparr>]\<rparr>"

definition sample_dup_UserFn :: "gotype UserFn" where
  "sample_dup_UserFn = \<lparr>Name = ''main.f'',
        Fn = func_value 0 [GoInt, GoContext, GoContext] [GoError, GoError],
        Param = [\<lparr>FnParam.Kind = FnValue, FnParam.T = GoInt\<rparr>,
                 \<lparr>FnParam.Kind = FnContext, FnParam.T = GoContext\<rparr>,
                 \<lparr>FnParam.Kind = FnContext, FnParam.T = GoContext\<rparr>],
        Ret = [\<lparr>ReturnParam.Kind = RetError, ReturnParam.T = GoError\<rparr>,
               \<lparr>ReturnParam.Kind = RetError, ReturnParam.T = GoError\<rparr>]\<rparr>"

section \<open>The classification as the specification words it\<close>

text \<open>
  The specification lists the tests on a parameter type in precedence order, each with
  the kind it gives; a type gets the kind of the first test that it passes, and none
  when it passes no test. These two lists follow the specification's words, not the
  code; they are compared with the \<^verbatim>\<open>switch\<close> statements of \<^verbatim>\<open>New\<close> below.
\<close>

definition spec_element_type :: "'t env \<Rightarrow> 't \<Rightarrow> bool" where
  "spec_element_type env t =
     (typex_IsContainer env t \<or> typex_IsConcrete env t \<or> typex_IsUniversal env t)"

definition spec_param_tests :: "'t env \<Rightarrow> (('t \<Rightarrow> bool) \<times> FnParamKind) list" where
  "spec_param_tests env =
     [((\<lambda>t. t = reflectx_Context env), FnContext),
      ((\<lambda>t. t = typex_EventTimeType env), FnEventTime),
      ((\<lambda>t. t = reflectx_Type env), FnType),
      (spec_element_type env, FnValue),
      (IsEmit env, FnEmit),
      (IsIter env, FnIter),
      (IsReIter env, FnReIter)]"

definition spec_return_tests :: "'t env \<Rightarrow> (('t \<Rightarrow> bool) \<times> ReturnKind) list" where
  "spec_return_tests env =
     [((\<lambda>t. t = reflectx_Error env), RetError),
      ((\<lambda>t. t = typex_EventTimeType env), RetEventTime),
      (spec_element_type env, RetValue)]"

fun first_passed :: "(('t \<Rightarrow> bool) \<times> int) list \<Rightarrow> 't \<Rightarrow> int option" where
  "first_passed [] t = None"
| "first_passed ((test, kind) # tests) t = (if test t then Some kind else first_passed tests t)"

section \<open>The two for statements of New\<close>

text \<open>
  When a loop of \<^verbatim>\<open>New\<close> runs to its end, it has appended one slot for every type from
  index \<open>i\<close> on, and every one of these types has passed a test; when it returns early,
  it does so at the first type from \<open>i\<close> on that passes no test.
\<close>

lemma New_params_Inr:
  "New_params env name ins i param = Inr ps \<Longrightarrow>
     ps = param @ map (\<lambda>t. \<lparr>FnParam.Kind = the (New_param_switch env t), FnParam.T = t\<rparr>) (drop i ins)
     \<and> (\<forall>j. i \<le> j \<longrightarrow> j < length ins \<longrightarrow> New_param_switch env (ins ! j) \<noteq> None)"
proof (induction env name ins i param rule: New_params.induct)
  case (1 env name ins i param)
  show ?case
  proof (cases "i < length ins")
    case False
    with "1.prems" show ?thesis by (simp add: New_params.simps [of env name ins i param])
  next
    case True
    show ?thesis
    proof (cases "New_param_switch env (ins ! i)")
      case None
      with True "1.prems" show ?thesis by (simp add: New_params.simps [of env name ins i param])
    next
      case (Some kind)
      let ?p = "\<lparr>FnParam.Kind = kind, FnParam.T = ins ! i\<rparr>"
      from True Some "1.prems"
      have rec: "New_params env name ins (i + 1) (param @ [?p]) = Inr ps"
        by (simp add: New_params.simps [of env name ins i param])
      from "1.IH" [OF True refl Some rec]
      have ih: "ps = (param @ [?p]) @ map (\<lambda>t. \<lparr>FnParam.Kind = the (New_param_switch env t), FnParam.T = t\<rparr>) (drop (i + 1) ins)"
        and ok: "\<forall>j. i + 1 \<le> j \<longrightarrow> j < length ins \<longrightarrow> New_param_switch env (ins ! j) \<noteq> None"
        by blast+
      have d: "drop i ins = ins ! i # drop (i + 1) ins"
        using True by (simp add: Cons_nth_drop_Suc)
      have "ps = param @ map (\<lambda>t. \<lparr>FnParam.Kind = the (New_param_switch env t), FnParam.T = t\<rparr>) (drop i ins)"
        using ih Some by (simp add: d)
      moreover have "\<forall>j. i \<le> j \<longrightarrow> j < length ins \<longrightarrow> New_param_switch env (ins ! j) \<noteq> None"
      proof (intro allI impI)
        fix j assume "i \<le> j" "j < length ins"
        show "New_param_switch env (ins ! j) \<noteq> None"
        proof (cases "j = i")
          case True then show ?thesis using Some by simp
        next
          case False
          with \<open>i \<le> j\<close> have "i + 1 \<le> j" by simp
          with ok \<open>j < length ins\<close> show ?thesis by blast
        qed
      qed
      ultimately show ?thesis by blast
    qed
  qed
qed

lemma New_params_Inl:
  "New_params env name ins i param = Inl e \<Longrightarrow>
     \<exists>k. i \<le> k \<and> k < length ins \<and> New_param_switch env (ins ! k) = None
       \<and> (\<forall>j. i \<le> j \<longrightarrow> j < k \<longrightarrow> New_param_switch env (ins ! j) \<noteq> None)
       \<and> e = ''bad paramenter type for '' @ name @ '': '' @ Type_String env (ins ! k)"
proof (induction env name ins i param rule: New_params.induct)
  case (1 env name ins i param)
  show ?case
  proof (cases "i < length ins")
    case False
    with "1.prems" show ?thesis by (simp add: New_params.simps [of env name ins i param])
  next
    case True
    show ?thesis
    proof (cases "New_param_switch env (ins ! i)")
      case None
      with True "1.prems"
      have "e = ''bad paramenter type for '' @ name @ '': '' @ Type_String env (ins ! i)"
        by (simp add: New_params.simps [of env name ins i param])
      with True None show ?thesis
        by (intro exI [of _ i]) simp
    next
      case (Some kind)
      let ?p = "\<lparr>FnParam.Kind = kind, FnParam.T = ins ! i\<rparr>"
      from True Some "1.prems"
      have rec: "New_params env name ins (i + 1) (param @ [?p]) = Inl e"
        by (simp add: New_params.simps [of env name ins i param])
      from "1.IH" [OF True refl Some rec]
      obtain k where k: "i + 1 \<le> k" "k < length ins" "New_param_switch env (ins ! k) = None"
        "\<forall>j. i + 1 \<le> j \<longrightarrow> j < k \<longrightarrow> New_param_switch env (ins ! j) \<noteq> None"
        "e = ''bad paramenter type for '' @ name @ '': '' @ Type_String env (ins ! k)"
        by blast
      have "\<forall>j. i \<le> j \<longrightarrow> j < k \<longrightarrow> New_param_switch env (ins ! j) \<noteq> None"
      proof (intro allI impI)
        fix j assume "i \<le> j" "j < k"
        show "New_param_switch env (ins ! j) \<noteq> None"
        proof (cases "j = i")
          case True then show ?thesis using Some by simp
        next
          case False
          with \<open>i \<le> j\<close> have "i + 1 \<le> j" by simp
          with k(4) \<open>j < k\<close> show ?thesis by blast
        qed
      qed
      with k show ?thesis
        by (intro exI [of _ k]) simp
    qed
  qed
qed

lemma New_returns_Inr:
  "New_returns env name outs i ret = Inr ps \<Longrightarrow>
     ps = ret @ map (\<lambda>t. \<lparr>ReturnParam.Kind = the (New_return_switch env t), ReturnParam.T = t\<rparr>) (drop i outs)
     \<and> (\<forall>j. i \<le> j \<longrightarrow> j < length outs \<longrightarrow> New_return_switch env (outs ! j) \<noteq> None)"
proof (induction env name outs i ret rule: New_returns.induct)
  case (1 env name outs i ret)
  show ?case
  proof (cases "i < length outs")
    case False
    with "1.prems" show ?thesis by (simp add: New_returns.simps [of env name outs i ret])
  next
    case True
    show ?thesis
    proof (cases "New_return_switch env (outs ! i)")
      case None
      with True "1.prems" show ?thesis by (simp add: New_returns.simps [of env name outs i ret])
    next
      case (Some kind)
      let ?p = "\<lparr>ReturnParam.Kind = kind, ReturnParam.T = outs ! i\<rparr>"
      from True Some "1.prems"
      have rec: "New_returns env name outs (i + 1) (ret @ [?p]) = Inr ps"
        by (simp add: New_returns.simps [of env name outs i ret])
      from "1.IH" [OF True refl Some rec]
      have ih: "ps = (ret @ [?p]) @ map (\<lambda>t. \<lparr>ReturnParam.Kind = the (New_return_switch env t), ReturnParam.T = t\<rparr>) (drop (i + 1) outs)"
        and ok: "\<forall>j. i + 1 \<le> j \<longrightarrow> j < length outs \<longrightarrow> New_return_switch env (outs ! j) \<noteq> None"
        by blast+
      have d: "drop i outs = outs ! i # drop (i + 1) outs"
        using True by (simp add: Cons_nth_drop_Suc)
      have "ps = ret @ map (\<lambda>t. \<lparr>ReturnParam.Kind = the (New_return_switch env t), ReturnParam.T = t\<rparr>) (drop i outs)"
        using ih Some by (simp add: d)
      moreover have "\<forall>j. i \<le> j \<longrightarrow> j < length outs \<longrightarrow> New_return_switch env (outs ! j) \<noteq> None"
      proof (intro allI impI)
        fix j assume "i \<le> j" "j < length outs"
        show "New_return_switch env (outs ! j) \<noteq> None"
        proof (cases "j = i")
          case True then show ?thesis using Some by simp
        next
          case False
          with \<open>i \<le> j\<close> have "i + 1 \<le> j" by simp
          with ok \<open>j < length outs\<close> show ?thesis by blast
        qed
      qed
      ultimately show ?thesis by blast
    qed
  qed
qed

lemma New_returns_Inl:
  "New_returns env name outs i ret = Inl e \<Longrightarrow>
     \<exists>k. i \<le> k \<and> k < length outs \<and> New_return_switch env (outs ! k) = None
       \<and> (\<forall>j. i \<le> j \<longrightarrow> j < k \<longrightarrow> New_return_switch env (outs ! j) \<noteq> None)
       \<and> e = ''bad return type for '' @ name @ '': '' @ Type_String env (outs ! k)"
proof (induction env name outs i ret rule: New_returns.induct)
  case (1 env name outs i ret)
  show ?case
  proof (cases "i < length outs")
    case False
    with "1.prems" show ?thesis by (simp add: New_returns.simps [of env name outs i ret])
  next
    case True
    show ?thesis
    proof (cases "New_return_switch env (outs ! i)")
      case None
      with True "1.prems"
      have "e = ''bad return type for '' @ name @ '': '' @ Type_String env (outs ! i)"
        by (simp add: New_returns.simps [of env name outs i ret])
      with True None show ?thesis
        by (intro exI [of _ i]) simp
    next
      case (Some kind)
      let ?p = "\<lparr>ReturnParam.Kind = kind, ReturnParam.T = outs ! i\<rparr>"
      from True Some "1.prems"
      have rec: "New_returns env name outs (i + 1) (ret @ [?p]) = Inl e"
        by (simp add: New_returns.simps [of env name outs i ret])
      from "1.IH" [OF True refl Some rec]
      obtain k where k: "i + 1 \<le> k" "k < length outs" "New_return_switch env (outs ! k) = None"
        "\<forall>j. i + 1 \<le> j \<longrightarrow> j < k \<longrightarrow> New_return_switch env (outs ! j) \<noteq> None"
        "e = ''bad return type for '' @ name @ '': '' @ Type_String env (outs ! k)"
        by blast
      have "\<forall>j. i \<le> j \<longrightarrow> j < k \<longrightarrow> New_return_switch env (outs ! j) \<noteq> None"
      proof (intro allI impI)
        fix j assume "i \<le> j" "j < k"
        show "New_return_switch env (outs ! j) \<noteq> None"
        proof (cases "j = i")
          case True then show ?thesis using Some by simp
        next
          case False
          with \<open>i \<le> j\<close> have "i + 1 \<le> j" by simp
          with k(4) \<open>j < k\<close> show ?thesis by blast
        qed
      qed
      with k show ?thesis
        by (intro exI [of _ k]) simp
    qed
  qed
qed


lemma New_params_find:
  "New_params env name ins 0 [] =
     (case find (\<lambda>t. New_param_switch env t = None) ins of
        Some t \<Rightarrow> Inl (''bad paramenter type for '' @ name @ '': '' @ Type_String env t)
      | None \<Rightarrow> Inr (map (\<lambda>t. \<lparr>FnParam.Kind = the (New_param_switch env t), FnParam.T = t\<rparr>) ins))"
proof (cases "New_params env name ins 0 []")
  case (Inr ps)
  from New_params_Inr [OF Inr]
  have ps: "ps = map (\<lambda>t. \<lparr>FnParam.Kind = the (New_param_switch env t), FnParam.T = t\<rparr>) ins"
    and ok: "\<forall>j<length ins. New_param_switch env (ins ! j) \<noteq> None"
    by simp_all
  from ok have "find (\<lambda>t. New_param_switch env t = None) ins = None"
    by (auto simp: find_None_iff in_set_conv_nth)
  with Inr ps show ?thesis by simp
next
  case (Inl e)
  from New_params_Inl [OF Inl]
  obtain k where k: "k < length ins" "New_param_switch env (ins ! k) = None"
    "\<forall>j<k. New_param_switch env (ins ! j) \<noteq> None"
    "e = ''bad paramenter type for '' @ name @ '': '' @ Type_String env (ins ! k)"
    by auto
  then have "find (\<lambda>t. New_param_switch env t = None) ins = Some (ins ! k)"
    by (auto simp: find_Some_iff)
  with Inl k(4) show ?thesis by simp
qed

lemma New_returns_find:
  "New_returns env name outs 0 [] =
     (case find (\<lambda>t. New_return_switch env t = None) outs of
        Some t \<Rightarrow> Inl (''bad return type for '' @ name @ '': '' @ Type_String env t)
      | None \<Rightarrow> Inr (map (\<lambda>t. \<lparr>ReturnParam.Kind = the (New_return_switch env t), ReturnParam.T = t\<rparr>) outs))"
proof (cases "New_returns env name outs 0 []")
  case (Inr rs)
  from New_returns_Inr [OF Inr]
  have rs: "rs = map (\<lambda>t. \<lparr>ReturnParam.Kind = the (New_return_switch env t), ReturnParam.T = t\<rparr>) outs"
    and ok: "\<forall>j<length outs. New_return_switch env (outs ! j) \<noteq> None"
    by simp_all
  from ok have "find (\<lambda>t. New_return_switch env t = None) outs = None"
    by (auto simp: find_None_iff in_set_conv_nth)
  with Inr rs show ?thesis by simp
next
  case (Inl e)
  from New_returns_Inl [OF Inl]
  obtain k where k: "k < length outs" "New_return_switch env (outs ! k) = None"
    "\<forall>j<k. New_return_switch env (outs ! j) \<noteq> None"
    "e = ''bad return type for '' @ name @ '': '' @ Type_String env (outs ! k)"
    by auto
  then have "find (\<lambda>t. New_return_switch env t = None) outs = Some (outs ! k)"
    by (auto simp: find_Some_iff)
  with Inl k(4) show ?thesis by simp
qed

lemma first_passed_param: "first_passed (spec_param_tests env) t = New_param_switch env t"
  by (simp add: spec_param_tests_def spec_element_type_def New_param_switch_def)

lemma first_passed_return: "first_passed (spec_return_tests env) t = New_return_switch env t"
  by (simp add: spec_return_tests_def spec_element_type_def New_return_switch_def)

lemma New_param_switch_nonzero: "New_param_switch env t = Some k \<Longrightarrow> k \<noteq> FnIllegal"
  by (auto simp: New_param_switch_def FnIllegal_def FnContext_def FnEventTime_def FnType_def
      FnValue_def FnEmit_def FnIter_def FnReIter_def split: if_splits)

lemma New_return_switch_nonzero: "New_return_switch env t = Some k \<Longrightarrow> k \<noteq> RetIllegal"
  by (auto simp: New_return_switch_def RetIllegal_def RetError_def RetEventTime_def RetValue_def
      split: if_splits)

section \<open>The result of New\<close>

text \<open>
  \<^verbatim>\<open>New\<close> has four ways out: the value is no function, a parameter type passes no
  test, a return type passes no test, or the descriptor is built.
\<close>

lemma New_not_func:
  "ValueKind fn \<noteq> reflect_Func \<Longrightarrow>
     New env fn = (None, Some (''not a function or method: '' @ Kind_String (ValueKind fn)))"
  by (simp add: New_def)

lemma New_bad_param:
  "ValueKind fn = reflect_Func \<Longrightarrow> find (\<lambda>t. New_param_switch env t = None) (In fn) = Some t \<Longrightarrow>
     New env fn = (None, Some (''bad paramenter type for '' @ FuncForPC_Name env (Pointer fn)
       @ '': '' @ Type_String env t))"
  by (simp add: New_def New_params_find)

lemma New_bad_return:
  "ValueKind fn = reflect_Func \<Longrightarrow> find (\<lambda>t. New_param_switch env t = None) (In fn) = None \<Longrightarrow>
   find (\<lambda>t. New_return_switch env t = None) (Out fn) = Some t \<Longrightarrow>
     New env fn = (None, Some (''bad return type for '' @ FuncForPC_Name env (Pointer fn)
       @ '': '' @ Type_String env t))"
  by (simp add: New_def New_params_find New_returns_find)

lemma New_ok:
  "ValueKind fn = reflect_Func \<Longrightarrow> find (\<lambda>t. New_param_switch env t = None) (In fn) = None \<Longrightarrow>
   find (\<lambda>t. New_return_switch env t = None) (Out fn) = None \<Longrightarrow>
     New env fn = (Some \<lparr>Name = FuncForPC_Name env (Pointer fn), Fn = fn,
        Param = map (\<lambda>t. \<lparr>FnParam.Kind = the (New_param_switch env t), FnParam.T = t\<rparr>) (In fn),
        Ret = map (\<lambda>t. \<lparr>ReturnParam.Kind = the (New_return_switch env t), ReturnParam.T = t\<rparr>) (Out fn)\<rparr>,
      None)"
  by (simp add: New_def New_params_find New_returns_find)

lemma New_Some:
  assumes "fst (New env fn) = Some u"
  shows "ValueKind fn = reflect_Func"
    and "\<forall>t\<in>set (In fn). New_param_switch env t \<noteq> None"
    and "\<forall>t\<in>set (Out fn). New_return_switch env t \<noteq> None"
    and "u = \<lparr>Name = FuncForPC_Name env (Pointer fn), Fn = fn,
        Param = map (\<lambda>t. \<lparr>FnParam.Kind = the (New_param_switch env t), FnParam.T = t\<rparr>) (In fn),
        Ret = map (\<lambda>t. \<lparr>ReturnParam.Kind = the (New_return_switch env t), ReturnParam.T = t\<rparr>) (Out fn)\<rparr>"
    and "snd (New env fn) = None"
proof -
  show k: "ValueKind fn = reflect_Func"
    using assms New_not_func [of fn env] by (cases "ValueKind fn = reflect_Func") auto
  have p: "find (\<lambda>t. New_param_switch env t = None) (In fn) = None"
  proof (cases "find (\<lambda>t. New_param_switch env t = None) (In fn)")
    case (Some t) with assms New_bad_param [OF k Some] show ?thesis by simp
  qed simp
  have r: "find (\<lambda>t. New_return_switch env t = None) (Out fn) = None"
  proof (cases "find (\<lambda>t. New_return_switch env t = None) (Out fn)")
    case (Some t) with assms New_bad_return [OF k p Some] show ?thesis by simp
  qed simp
  from p show "\<forall>t\<in>set (In fn). New_param_switch env t \<noteq> None" by (simp add: find_None_iff)
  from r show "\<forall>t\<in>set (Out fn). New_return_switch env t \<noteq> None" by (simp add: find_None_iff)
  from assms New_ok [OF k p r] show "u = \<lparr>Name = FuncForPC_Name env (Pointer fn), Fn = fn,
        Param = map (\<lambda>t. \<lparr>FnParam.Kind = the (New_param_switch env t), FnParam.T = t\<rparr>) (In fn),
        Ret = map (\<lambda>t. \<lparr>ReturnParam.Kind = the (New_return_switch env t), ReturnParam.T = t\<rparr>) (Out fn)\<rparr>"
    by simp
  from New_ok [OF k p r] show "snd (New env fn) = None" by simp
qed

lemma New_error:
  assumes "snd (New env fn) = Some e"
  shows "fst (New env fn) = None"
proof (cases "fst (New env fn)")
  case (Some u)
  from New_Some(5) [OF Some] assms show ?thesis by simp
qed simp

lemma New_total_cases:
  "(\<exists>u. New env fn = (Some u, None)) \<or> (\<exists>e. New env fn = (None, Some e))"
proof (cases "fst (New env fn)")
  case (Some u)
  from New_Some(5) [OF Some] Some show ?thesis by (cases "New env fn") auto
next
  case None
  show ?thesis
  proof (cases "ValueKind fn = reflect_Func")
    case False from New_not_func [OF False] show ?thesis by simp
  next
    case k: True
    show ?thesis
    proof (cases "find (\<lambda>t. New_param_switch env t = None) (In fn)")
      case (Some t) from New_bad_param [OF k Some] show ?thesis by simp
    next
      case p: None
      show ?thesis
      proof (cases "find (\<lambda>t. New_return_switch env t = None) (Out fn)")
        case (Some t) from New_bad_return [OF k p Some] show ?thesis by simp
      next
        case r: None from New_ok [OF k p r] show ?thesis by simp
      qed
    qed
  qed
qed

lemma New_fst:
  "fst (New env fn) =
     (if ValueKind fn = reflect_Func \<and> (\<forall>t\<in>set (In fn). New_param_switch env t \<noteq> None)
          \<and> (\<forall>t\<in>set (Out fn). New_return_switch env t \<noteq> None)
      then Some \<lparr>Name = FuncForPC_Name env (Pointer fn), Fn = fn,
        Param = map (\<lambda>t. \<lparr>FnParam.Kind = the (New_param_switch env t), FnParam.T = t\<rparr>) (In fn),
        Ret = map (\<lambda>t. \<lparr>ReturnParam.Kind = the (New_return_switch env t), ReturnParam.T = t\<rparr>) (Out fn)\<rparr>
      else None)"
proof (cases "fst (New env fn)")
  case (Some u)
  from New_Some(1-4) [OF Some] Some show ?thesis by simp
next
  case None
  have "\<not> (ValueKind fn = reflect_Func \<and> (\<forall>t\<in>set (In fn). New_param_switch env t \<noteq> None)
          \<and> (\<forall>t\<in>set (Out fn). New_return_switch env t \<noteq> None))"
  proof
    assume a: "ValueKind fn = reflect_Func \<and> (\<forall>t\<in>set (In fn). New_param_switch env t \<noteq> None)
          \<and> (\<forall>t\<in>set (Out fn). New_return_switch env t \<noteq> None)"
    then have "find (\<lambda>t. New_param_switch env t = None) (In fn) = None"
      and "find (\<lambda>t. New_return_switch env t = None) (Out fn) = None"
      by (simp_all add: find_None_iff)
    with a New_ok [of fn env] None show False by simp
  qed
  with None show ?thesis by simp
qed

text \<open>In the concrete instance, \<^verbatim>\<open>func(context.Context, string, int) int\<close> is accepted.\<close>

lemma sample_ok:
  "New sample_env (func_value 0 [GoContext, GoString, GoInt] [GoInt]) =
     (Some \<lparr>Name = ''main.f'', Fn = func_value 0 [GoContext, GoString, GoInt] [GoInt],
        Param = [\<lparr>FnParam.Kind = FnContext, FnParam.T = GoContext\<rparr>,
                 \<lparr>FnParam.Kind = FnValue, FnParam.T = GoString\<rparr>,
                 \<lparr>FnParam.Kind = FnValue, FnParam.T = GoInt\<rparr>],
        Ret = [\<lparr>ReturnParam.Kind = RetValue, ReturnParam.T = GoInt\<rparr>]\<rparr>, None)"
  by code_simp

lemma New_snd:
  "snd (New env fn) \<noteq> None \<longleftrightarrow>
     ValueKind fn \<noteq> reflect_Func \<or> (\<exists>t\<in>set (In fn). New_param_switch env t = None)
       \<or> (\<exists>t\<in>set (Out fn). New_return_switch env t = None)"
proof -
  have "snd (New env fn) \<noteq> None \<longleftrightarrow> fst (New env fn) = None"
    using New_total_cases [of env fn] by auto
  then show ?thesis by (auto simp: New_fst)
qed

lemma New_param_slots:
  assumes "fst (New env fn) = Some u"
  shows "length (Param u) = length (In fn)"
    and "i < length (In fn) \<Longrightarrow> FnParam.T (Param u ! i) = In fn ! i"
    and "i < length (In fn) \<Longrightarrow> New_param_switch env (In fn ! i) = Some (FnParam.Kind (Param u ! i))"
proof -
  note s = New_Some [OF assms]
  from s(4) show "length (Param u) = length (In fn)" by simp
  from s(4) show "i < length (In fn) \<Longrightarrow> FnParam.T (Param u ! i) = In fn ! i" by simp
  assume i: "i < length (In fn)"
  with s(2) obtain k where "New_param_switch env (In fn ! i) = Some k" by fastforce
  with s(4) i show "New_param_switch env (In fn ! i) = Some (FnParam.Kind (Param u ! i))" by simp
qed

lemma New_return_slots:
  assumes "fst (New env fn) = Some u"
  shows "length (Ret u) = length (Out fn)"
    and "i < length (Out fn) \<Longrightarrow> ReturnParam.T (Ret u ! i) = Out fn ! i"
    and "i < length (Out fn) \<Longrightarrow> New_return_switch env (Out fn ! i) = Some (ReturnParam.Kind (Ret u ! i))"
proof -
  note s = New_Some [OF assms]
  from s(4) show "length (Ret u) = length (Out fn)" by simp
  from s(4) show "i < length (Out fn) \<Longrightarrow> ReturnParam.T (Ret u ! i) = Out fn ! i" by simp
  assume i: "i < length (Out fn)"
  with s(3) obtain k where "New_return_switch env (Out fn ! i) = Some k" by fastforce
  with s(4) i show "New_return_switch env (Out fn ! i) = Some (ReturnParam.Kind (Ret u ! i))" by simp
qed

lemma sample_all_kinds_ok:
  "fst (New sample_env sample_all_kinds) =
     Some \<lparr>Name = ''main.f'', Fn = sample_all_kinds,
        Param = [\<lparr>FnParam.Kind = FnEmit, FnParam.T = GoFunc [GoInt] []\<rparr>,
                 \<lparr>FnParam.Kind = FnIter, FnParam.T = GoFunc [GoPtr GoInt] [GoBool]\<rparr>,
                 \<lparr>FnParam.Kind = FnReIter, FnParam.T = GoFunc [] [GoFunc [GoPtr GoInt] [GoBool]]\<rparr>,
                 \<lparr>FnParam.Kind = FnContext, FnParam.T = GoContext\<rparr>,
                 \<lparr>FnParam.Kind = FnEventTime, FnParam.T = GoEventTime\<rparr>,
                 \<lparr>FnParam.Kind = FnType, FnParam.T = GoReflectType\<rparr>,
                 \<lparr>FnParam.Kind = FnValue, FnParam.T = GoString\<rparr>],
        Ret = []\<rparr>"
  by code_simp

section \<open>The claims\<close>

text \<open>
  C3. In every descriptor that \<^verbatim>\<open>New\<close> returns, the kind of every parameter slot and
  of every return slot is different from zero, that is, it is never \<^verbatim>\<open>FnIllegal\<close> and
  never \<^verbatim>\<open>RetIllegal\<close>.
\<close>

theorem New_kinds_nonzero:
  "fst (New env fn) = Some u \<Longrightarrow>
     (\<forall>p\<in>set (Param u). FnParam.Kind p \<noteq> FnIllegal \<and> FnParam.Kind p \<noteq> 0) \<and>
     (\<forall>r\<in>set (Ret u). ReturnParam.Kind r \<noteq> RetIllegal \<and> ReturnParam.Kind r \<noteq> 0)"
proof -
  assume a: "fst (New env fn) = Some u"
  note s = New_Some [OF a]
  have p: "FnParam.Kind p \<noteq> FnIllegal" if "p \<in> set (Param u)" for p
  proof -
    from that s(4) obtain t where t: "t \<in> set (In fn)"
      "FnParam.Kind p = the (New_param_switch env t)" by auto
    with s(2) obtain k where "New_param_switch env t = Some k" by auto
    with t New_param_switch_nonzero [of env t k] show ?thesis by simp
  qed
  have r: "ReturnParam.Kind r \<noteq> RetIllegal" if "r \<in> set (Ret u)" for r
  proof -
    from that s(4) obtain t where t: "t \<in> set (Out fn)"
      "ReturnParam.Kind r = the (New_return_switch env t)" by auto
    with s(3) obtain k where "New_return_switch env t = Some k" by auto
    with t New_return_switch_nonzero [of env t k] show ?thesis by simp
  qed
  from p r show ?thesis by (auto simp: FnIllegal_def RetIllegal_def)
qed

theorem New_kinds_nonzero_witness:
  "fst (New sample_env (func_value 0 [GoContext, GoString, GoInt] [GoInt])) =
     Some \<lparr>Name = ''main.f'', Fn = func_value 0 [GoContext, GoString, GoInt] [GoInt],
        Param = [\<lparr>FnParam.Kind = FnContext, FnParam.T = GoContext\<rparr>,
                 \<lparr>FnParam.Kind = FnValue, FnParam.T = GoString\<rparr>,
                 \<lparr>FnParam.Kind = FnValue, FnParam.T = GoInt\<rparr>],
        Ret = [\<lparr>ReturnParam.Kind = RetValue, ReturnParam.T = GoInt\<rparr>]\<rparr> \<and>
   FnContext \<noteq> FnIllegal \<and> FnValue \<noteq> FnIllegal \<and> RetValue \<noteq> RetIllegal"
proof -
  have e: "fst (New sample_env (func_value 0 [GoContext, GoString, GoInt] [GoInt])) =
     Some \<lparr>Name = ''main.f'', Fn = func_value 0 [GoContext, GoString, GoInt] [GoInt],
        Param = [\<lparr>FnParam.Kind = FnContext, FnParam.T = GoContext\<rparr>,
                 \<lparr>FnParam.Kind = FnValue, FnParam.T = GoString\<rparr>,
                 \<lparr>FnParam.Kind = FnValue, FnParam.T = GoInt\<rparr>],
        Ret = [\<lparr>ReturnParam.Kind = RetValue, ReturnParam.T = GoInt\<rparr>]\<rparr>"
    by (simp add: sample_ok)
  from New_kinds_nonzero [OF e] e show ?thesis by simp
qed

text \<open>
  C1. A parameter type gets the kind of the first test that it passes, the tests being
  tried in the order context, event time, type token, element type, emitter, iterator,
  re-iterator: a descriptor that \<^verbatim>\<open>New\<close> returns has one slot per parameter, in
  declaration order, with the parameter's type and that kind. When the first parameter
  type that passes no test is at index \<open>i\<close>, \<^verbatim>\<open>New\<close> returns no descriptor and the
  error for a bad parameter type.
\<close>

theorem New_param_precedence:
  "(\<forall>u. fst (New env fn) = Some u \<longrightarrow>
      length (Param u) = length (In fn) \<and>
      (\<forall>i<length (In fn).
         FnParam.T (Param u ! i) = In fn ! i \<and>
         first_passed (spec_param_tests env) (In fn ! i) = Some (FnParam.Kind (Param u ! i)))) \<and>
   (\<forall>i<length (In fn).
      ValueKind fn = reflect_Func \<and>
      first_passed (spec_param_tests env) (In fn ! i) = None \<and>
      (\<forall>j<i. first_passed (spec_param_tests env) (In fn ! j) \<noteq> None) \<longrightarrow>
      New env fn = (None, Some (''bad paramenter type for '' @ FuncForPC_Name env (Pointer fn)
        @ '': '' @ Type_String env (In fn ! i))))"
proof (intro conjI allI impI)
  fix u assume "fst (New env fn) = Some u"
  then show "length (Param u) = length (In fn)" by (rule New_param_slots(1))
next
  fix u i assume "fst (New env fn) = Some u" "i < length (In fn)"
  then show "FnParam.T (Param u ! i) = In fn ! i" by (rule New_param_slots(2))
next
  fix u i assume "fst (New env fn) = Some u" "i < length (In fn)"
  then show "first_passed (spec_param_tests env) (In fn ! i) = Some (FnParam.Kind (Param u ! i))"
    by (simp add: New_param_slots(3) first_passed_param)
next
  fix i
  assume i: "i < length (In fn)"
    and a: "ValueKind fn = reflect_Func \<and>
      first_passed (spec_param_tests env) (In fn ! i) = None \<and>
      (\<forall>j<i. first_passed (spec_param_tests env) (In fn ! j) \<noteq> None)"
  then have "find (\<lambda>t. New_param_switch env t = None) (In fn) = Some (In fn ! i)"
    by (auto simp: find_Some_iff first_passed_param)
  with a show "New env fn = (None, Some (''bad paramenter type for '' @ FuncForPC_Name env (Pointer fn)
        @ '': '' @ Type_String env (In fn ! i)))"
    by (simp add: New_bad_param)
qed

theorem New_param_precedence_witness:
  "fst (New sample_env sample_all_kinds) =
     Some \<lparr>Name = ''main.f'', Fn = sample_all_kinds,
        Param = [\<lparr>FnParam.Kind = FnEmit, FnParam.T = GoFunc [GoInt] []\<rparr>,
                 \<lparr>FnParam.Kind = FnIter, FnParam.T = GoFunc [GoPtr GoInt] [GoBool]\<rparr>,
                 \<lparr>FnParam.Kind = FnReIter, FnParam.T = GoFunc [] [GoFunc [GoPtr GoInt] [GoBool]]\<rparr>,
                 \<lparr>FnParam.Kind = FnContext, FnParam.T = GoContext\<rparr>,
                 \<lparr>FnParam.Kind = FnEventTime, FnParam.T = GoEventTime\<rparr>,
                 \<lparr>FnParam.Kind = FnType, FnParam.T = GoReflectType\<rparr>,
                 \<lparr>FnParam.Kind = FnValue, FnParam.T = GoString\<rparr>],
        Ret = []\<rparr> \<and>
   first_passed (spec_param_tests sample_env) (GoFunc [] [GoFunc [GoPtr GoInt] [GoBool]]) = Some FnReIter \<and>
   (1::nat) < length (In (func_value 0 [GoInt, GoChan GoInt] [])) \<and>
   ValueKind (func_value 0 [GoInt, GoChan GoInt] []) = reflect_Func \<and>
   first_passed (spec_param_tests sample_env) (GoChan GoInt) = None \<and>
   first_passed (spec_param_tests sample_env) GoInt \<noteq> None \<and>
   New sample_env (func_value 0 [GoInt, GoChan GoInt] []) =
     (None, Some ''bad paramenter type for main.f: chan int'')"
proof -
  note e = sample_all_kinds_ok
  have l: "(2::nat) < length (In sample_all_kinds)"
    by (simp add: sample_all_kinds_def func_value_def)
  note s = New_param_precedence [of sample_env sample_all_kinds, THEN conjunct1, rule_format,
      OF e, THEN conjunct2, rule_format, OF l, THEN conjunct2]
  have i2: "In sample_all_kinds ! 2 = GoFunc [] [GoFunc [GoPtr GoInt] [GoBool]]"
    by (simp add: sample_all_kinds_def func_value_def)
  from s have a: "first_passed (spec_param_tests sample_env) (GoFunc [] [GoFunc [GoPtr GoInt] [GoBool]]) = Some FnReIter"
    by (simp only: i2) simp
  have h1: "(1::nat) < length (In (func_value 0 [GoInt, GoChan GoInt] []))"
    by (simp add: func_value_def)
  have h2: "ValueKind (func_value 0 [GoInt, GoChan GoInt] []) = reflect_Func"
    by (simp add: func_value_def)
  have h3: "first_passed (spec_param_tests sample_env) (GoChan GoInt) = None"
    by code_simp
  have h4: "first_passed (spec_param_tests sample_env) GoInt \<noteq> None"
    by code_simp
  have h3': "first_passed (spec_param_tests sample_env) (In (func_value 0 [GoInt, GoChan GoInt] []) ! 1) = None"
    using h3 by (simp add: func_value_def)
  have h4': "\<forall>j<1. first_passed (spec_param_tests sample_env) (In (func_value 0 [GoInt, GoChan GoInt] []) ! j) \<noteq> None"
    using h4 by (simp add: func_value_def)
  note f = New_param_precedence [of sample_env "func_value 0 [GoInt, GoChan GoInt] []",
      THEN conjunct2, rule_format, OF h1 conjI [OF h2 conjI [OF h3' h4']]]
  from f have b: "New sample_env (func_value 0 [GoInt, GoChan GoInt] []) =
     (None, Some ''bad paramenter type for main.f: chan int'')"
    by (simp add: func_value_def sample_env_def sample_Name_def)
  from e a h1 h2 h3 h4 b show ?thesis by (intro conjI)
qed

text \<open>
  C2. A return type gets the kind of the first test that it passes, the tests being
  tried in the order error, event time, element type: a descriptor that \<^verbatim>\<open>New\<close>
  returns has one slot per return value, in declaration order, with its type and that
  kind. When every parameter type passes a test and the first return type that passes
  none is at index \<open>i\<close>, \<^verbatim>\<open>New\<close> returns no descriptor and the error for a bad return
  type. A function with no parameter whose returns are two element types, neither the
  error nor the event-time type, followed by the error type, gets the return kinds
  \<^verbatim>\<open>RetValue\<close>, \<^verbatim>\<open>RetValue\<close>, \<^verbatim>\<open>RetError\<close>.
\<close>

theorem New_return_precedence:
  "(\<forall>u. fst (New env fn) = Some u \<longrightarrow>
      length (Ret u) = length (Out fn) \<and>
      (\<forall>i<length (Out fn).
         ReturnParam.T (Ret u ! i) = Out fn ! i \<and>
         first_passed (spec_return_tests env) (Out fn ! i) = Some (ReturnParam.Kind (Ret u ! i)))) \<and>
   (\<forall>i<length (Out fn).
      ValueKind fn = reflect_Func \<and>
      (\<forall>t\<in>set (In fn). first_passed (spec_param_tests env) t \<noteq> None) \<and>
      first_passed (spec_return_tests env) (Out fn ! i) = None \<and>
      (\<forall>j<i. first_passed (spec_return_tests env) (Out fn ! j) \<noteq> None) \<longrightarrow>
      New env fn = (None, Some (''bad return type for '' @ FuncForPC_Name env (Pointer fn)
        @ '': '' @ Type_String env (Out fn ! i)))) \<and>
   (\<forall>t0 t1.
      ValueKind fn = reflect_Func \<and> In fn = [] \<and> Out fn = [t0, t1, reflectx_Error env] \<and>
      spec_element_type env t0 \<and> t0 \<noteq> reflectx_Error env \<and> t0 \<noteq> typex_EventTimeType env \<and>
      spec_element_type env t1 \<and> t1 \<noteq> reflectx_Error env \<and> t1 \<noteq> typex_EventTimeType env \<longrightarrow>
      (\<exists>u. New env fn = (Some u, None) \<and>
           map ReturnParam.Kind (Ret u) = [RetValue, RetValue, RetError]))"
proof (intro conjI allI impI)
  fix u assume "fst (New env fn) = Some u"
  then show "length (Ret u) = length (Out fn)" by (rule New_return_slots(1))
next
  fix u i assume "fst (New env fn) = Some u" "i < length (Out fn)"
  then show "ReturnParam.T (Ret u ! i) = Out fn ! i" by (rule New_return_slots(2))
next
  fix u i assume "fst (New env fn) = Some u" "i < length (Out fn)"
  then show "first_passed (spec_return_tests env) (Out fn ! i) = Some (ReturnParam.Kind (Ret u ! i))"
    by (simp add: New_return_slots(3) first_passed_return)
next
  fix i
  assume i: "i < length (Out fn)"
    and a: "ValueKind fn = reflect_Func \<and>
      (\<forall>t\<in>set (In fn). first_passed (spec_param_tests env) t \<noteq> None) \<and>
      first_passed (spec_return_tests env) (Out fn ! i) = None \<and>
      (\<forall>j<i. first_passed (spec_return_tests env) (Out fn ! j) \<noteq> None)"
  then have r: "find (\<lambda>t. New_return_switch env t = None) (Out fn) = Some (Out fn ! i)"
    by (auto simp: find_Some_iff first_passed_return)
  from a have p: "find (\<lambda>t. New_param_switch env t = None) (In fn) = None"
    by (simp add: find_None_iff first_passed_param)
  from a p r show "New env fn = (None, Some (''bad return type for '' @ FuncForPC_Name env (Pointer fn)
        @ '': '' @ Type_String env (Out fn ! i)))"
    by (simp add: New_bad_return)
next
  fix t0 t1
  assume a: "ValueKind fn = reflect_Func \<and> In fn = [] \<and> Out fn = [t0, t1, reflectx_Error env] \<and>
      spec_element_type env t0 \<and> t0 \<noteq> reflectx_Error env \<and> t0 \<noteq> typex_EventTimeType env \<and>
      spec_element_type env t1 \<and> t1 \<noteq> reflectx_Error env \<and> t1 \<noteq> typex_EventTimeType env"
  then have sw: "New_return_switch env t0 = Some RetValue" "New_return_switch env t1 = Some RetValue"
    "New_return_switch env (reflectx_Error env) = Some RetError"
    by (simp_all add: New_return_switch_def spec_element_type_def)
  from a have p: "find (\<lambda>t. New_param_switch env t = None) (In fn) = None" by simp
  from a sw have r: "find (\<lambda>t. New_return_switch env t = None) (Out fn) = None" by simp
  from a have k: "ValueKind fn = reflect_Func" by simp
  from New_ok [OF k p r] a sw
  show "\<exists>u. New env fn = (Some u, None) \<and>
           map ReturnParam.Kind (Ret u) = [RetValue, RetValue, RetError]"
    by simp
qed

theorem New_return_precedence_witness:
  "ValueKind (func_value 0 [] [GoInt, GoInt, GoError]) = reflect_Func \<and>
   spec_element_type sample_env GoInt \<and> GoInt \<noteq> reflectx_Error sample_env \<and>
   GoInt \<noteq> typex_EventTimeType sample_env \<and>
   (\<exists>u. New sample_env (func_value 0 [] [GoInt, GoInt, GoError]) = (Some u, None) \<and>
        map ReturnParam.Kind (Ret u) = [RetValue, RetValue, RetError]) \<and>
   first_passed (spec_return_tests sample_env) (GoFunc [] []) = None \<and>
   first_passed (spec_return_tests sample_env) GoEventTime = Some RetEventTime \<and>
   New sample_env (func_value 0 [GoInt] [GoEventTime, GoFunc [] []]) =
     (None, Some ''bad return type for main.f: func()'')"
proof -
  let ?f = "func_value 0 [] [GoInt, GoInt, GoError]"
  let ?g = "func_value 0 [GoInt] [GoEventTime, GoFunc [] []]"
  have k: "ValueKind ?f = reflect_Func" by (simp add: func_value_def)
  have el: "spec_element_type sample_env GoInt" by code_simp
  have n1: "GoInt \<noteq> reflectx_Error sample_env" by (simp add: sample_env_def)
  have n2: "GoInt \<noteq> typex_EventTimeType sample_env" by (simp add: sample_env_def)
  have io: "In ?f = []" "Out ?f = [GoInt, GoInt, reflectx_Error sample_env]"
    by (simp_all add: func_value_def sample_env_def)
  from New_return_precedence [of sample_env ?f] k el n1 n2 io
  have a: "\<exists>u. New sample_env ?f = (Some u, None) \<and>
        map ReturnParam.Kind (Ret u) = [RetValue, RetValue, RetError]"
    by blast
  have h1: "(1::nat) < length (Out ?g)" by (simp add: func_value_def)
  have h2: "ValueKind ?g = reflect_Func" by (simp add: func_value_def)
  have h3: "first_passed (spec_return_tests sample_env) (GoFunc [] []) = None" by code_simp
  have h4: "first_passed (spec_return_tests sample_env) GoEventTime = Some RetEventTime" by code_simp
  have h5: "first_passed (spec_param_tests sample_env) GoInt \<noteq> None" by code_simp
  have h3': "first_passed (spec_return_tests sample_env) (Out ?g ! 1) = None"
    using h3 by (simp add: func_value_def)
  have h4': "\<forall>j<1. first_passed (spec_return_tests sample_env) (Out ?g ! j) \<noteq> None"
    using h4 by (simp add: func_value_def)
  have h5': "\<forall>t\<in>set (In ?g). first_passed (spec_param_tests sample_env) t \<noteq> None"
    using h5 by (simp add: func_value_def)
  from New_return_precedence [of sample_env ?g] h1 h2 h3' h4' h5'
  have "New sample_env ?g =
     (None, Some (''bad return type for '' @ FuncForPC_Name sample_env (Pointer ?g)
        @ '': '' @ Type_String sample_env (Out ?g ! 1)))"
    by blast
  then have b: "New sample_env ?g = (None, Some ''bad return type for main.f: func()'')"
    by (simp add: func_value_def sample_env_def sample_Name_def)
  from k el n1 n2 a h3 h4 b show ?thesis by (intro conjI)
qed

text \<open>
  C4. When the value is not of kind \<^verbatim>\<open>reflect.Func\<close>, \<^verbatim>\<open>New\<close> returns the error
  \<^verbatim>\<open>not a function or method\<close> and no descriptor. \<^verbatim>\<open>New\<close> returns an error exactly
  when the value is no function, or a parameter type passes no test, or a return type
  passes no test; whenever it returns an error the descriptor is \<^verbatim>\<open>nil\<close>, and whenever
  it returns no error there is a descriptor.
\<close>

theorem New_failure_no_descriptor:
  "(ValueKind fn \<noteq> reflect_Func \<longrightarrow>
      New env fn = (None, Some (''not a function or method: '' @ Kind_String (ValueKind fn)))) \<and>
   (snd (New env fn) \<noteq> None \<longleftrightarrow>
      ValueKind fn \<noteq> reflect_Func \<or> (\<exists>t\<in>set (In fn). New_param_switch env t = None)
        \<or> (\<exists>t\<in>set (Out fn). New_return_switch env t = None)) \<and>
   (snd (New env fn) \<noteq> None \<longrightarrow> fst (New env fn) = None) \<and>
   (snd (New env fn) = None \<longrightarrow> fst (New env fn) \<noteq> None)"
proof (intro conjI impI)
  assume "ValueKind fn \<noteq> reflect_Func"
  then show "New env fn = (None, Some (''not a function or method: '' @ Kind_String (ValueKind fn)))"
    by (rule New_not_func)
next
  show "snd (New env fn) \<noteq> None \<longleftrightarrow>
      ValueKind fn \<noteq> reflect_Func \<or> (\<exists>t\<in>set (In fn). New_param_switch env t = None)
        \<or> (\<exists>t\<in>set (Out fn). New_return_switch env t = None)"
    by (rule New_snd)
next
  assume "snd (New env fn) \<noteq> None"
  then show "fst (New env fn) = None" using New_error [of env fn] by auto
next
  assume "snd (New env fn) = None"
  then show "fst (New env fn) \<noteq> None" using New_total_cases [of env fn] by auto
qed

theorem New_failure_no_descriptor_witness:
  "ValueKind \<lparr>ValueKind = reflect_Int, Pointer = 0, In = [], Out = ([]::gotype list)\<rparr> \<noteq> reflect_Func \<and>
   New sample_env \<lparr>ValueKind = reflect_Int, Pointer = 0, In = [], Out = []\<rparr> =
     (None, Some ''not a function or method: int'') \<and>
   snd (New sample_env (func_value 0 [GoInt, GoChan GoInt] [])) =
     Some ''bad paramenter type for main.f: chan int'' \<and>
   fst (New sample_env (func_value 0 [GoInt, GoChan GoInt] [])) = None \<and>
   snd (New sample_env (func_value 0 [GoInt] [GoFunc [] []])) =
     Some ''bad return type for main.f: func()'' \<and>
   fst (New sample_env (func_value 0 [GoInt] [GoFunc [] []])) = None"
proof -
  have 1: "ValueKind \<lparr>ValueKind = reflect_Int, Pointer = 0, In = [], Out = ([]::gotype list)\<rparr> \<noteq> reflect_Func"
    by simp
  from New_failure_no_descriptor [of "\<lparr>ValueKind = reflect_Int, Pointer = 0, In = [], Out = []\<rparr>" sample_env] 1
  have "New sample_env \<lparr>ValueKind = reflect_Int, Pointer = 0, In = [], Out = []\<rparr> =
     (None, Some (''not a function or method: '' @
        Kind_String (ValueKind \<lparr>ValueKind = reflect_Int, Pointer = 0, In = [], Out = ([]::gotype list)\<rparr>)))"
    by blast
  then have n: "New sample_env \<lparr>ValueKind = reflect_Int, Pointer = 0, In = [], Out = []\<rparr> =
     (None, Some ''not a function or method: int'')"
    by simp
  have 2: "snd (New sample_env (func_value 0 [GoInt, GoChan GoInt] [])) =
     Some ''bad paramenter type for main.f: chan int''"
    by code_simp
  then have "snd (New sample_env (func_value 0 [GoInt, GoChan GoInt] [])) \<noteq> None"
    by simp
  with New_failure_no_descriptor [of "func_value 0 [GoInt, GoChan GoInt] []" sample_env]
  have p: "fst (New sample_env (func_value 0 [GoInt, GoChan GoInt] [])) = None"
    by blast
  have 3: "snd (New sample_env (func_value 0 [GoInt] [GoFunc [] []])) =
     Some ''bad return type for main.f: func()''"
    by code_simp
  then have "snd (New sample_env (func_value 0 [GoInt] [GoFunc [] []])) \<noteq> None"
    by simp
  with New_failure_no_descriptor [of "func_value 0 [GoInt] [GoFunc [] []]" sample_env]
  have r: "fst (New sample_env (func_value 0 [GoInt] [GoFunc [] []])) = None"
    by blast
  from 1 n 2 p 3 r show ?thesis by (intro conjI)
qed

text \<open>
  C9. Two function values with the same parameter types and the same return types,
  whatever their code pointers and names, are classified alike: either \<^verbatim>\<open>New\<close> rejects
  both, or the two descriptors have the same parameter slots and return slots, and so
  the same sequences of kinds.
\<close>

theorem New_deterministic:
  assumes "ValueKind fn1 = reflect_Func" and "ValueKind fn2 = reflect_Func"
    and "In fn1 = In fn2" and "Out fn1 = Out fn2"
  shows "map_option (\<lambda>u. (map FnParam.Kind (Param u), map ReturnParam.Kind (Ret u))) (fst (New env fn1)) =
         map_option (\<lambda>u. (map FnParam.Kind (Param u), map ReturnParam.Kind (Ret u))) (fst (New env fn2)) \<and>
         map_option (\<lambda>u. (Param u, Ret u)) (fst (New env fn1)) =
         map_option (\<lambda>u. (Param u, Ret u)) (fst (New env fn2)) \<and>
         (fst (New env fn1) = None \<longleftrightarrow> fst (New env fn2) = None)"
  using assms by (simp add: New_fst)

theorem New_deterministic_witness:
  "map_option (\<lambda>u. (map FnParam.Kind (Param u), map ReturnParam.Kind (Ret u)))
     (fst (New sample_env (func_value 0 [GoContext, GoString, GoInt] [GoInt]))) =
   Some ([FnContext, FnValue, FnValue], [RetValue]) \<and>
   map_option (\<lambda>u. (map FnParam.Kind (Param u), map ReturnParam.Kind (Ret u)))
     (fst (New sample_env (func_value 1 [GoContext, GoString, GoInt] [GoInt]))) =
   Some ([FnContext, FnValue, FnValue], [RetValue]) \<and>
   map_option Name (fst (New sample_env (func_value 0 [GoContext, GoString, GoInt] [GoInt]))) = Some ''main.f'' \<and>
   map_option Name (fst (New sample_env (func_value 1 [GoContext, GoString, GoInt] [GoInt]))) = Some ''main.g''"
proof -
  have k: "ValueKind (func_value 0 [GoContext, GoString, GoInt] [GoInt]) = reflect_Func"
    "ValueKind (func_value 1 [GoContext, GoString, GoInt] [GoInt]) = reflect_Func"
    by (simp_all add: func_value_def)
  have i: "In (func_value 0 [GoContext, GoString, GoInt] [GoInt]) =
           In (func_value 1 [GoContext, GoString, GoInt] [GoInt])"
    by (simp add: func_value_def)
  have out: "Out (func_value 0 [GoContext, GoString, GoInt] [GoInt]) =
           Out (func_value 1 [GoContext, GoString, GoInt] [GoInt])"
    by (simp add: func_value_def)
  have n: "map_option Name (fst (New sample_env (func_value 1 [GoContext, GoString, GoInt] [GoInt]))) = Some ''main.g''"
    by code_simp
  from New_deterministic [OF k i out, of sample_env] n show ?thesis
    by (simp add: sample_ok)
qed

section \<open>The query functions on a descriptor\<close>

text \<open>
  The loop of \<^verbatim>\<open>Params\<close>, started at index \<open>i\<close> with \<^verbatim>\<open>ret\<close>, appends the positions
  of the slots whose kind shares a bit with the mask, in ascending order.
\<close>

lemma filter_upt_Cons:
  "filter (\<lambda>j. P ((p # ps) ! j)) [0..<Suc (length ps)] =
     (if P p then [0] else []) @ map Suc (filter (\<lambda>j. P (ps ! j)) [0..<length ps])"
proof -
  have "[0..<Suc (length ps)] = 0 # map Suc [0..<length ps]"
    by (simp add: upt_conv_Cons map_Suc_upt del: upt_Suc)
  then show ?thesis by (simp add: filter_map o_def del: upt_Suc)
qed

lemma Params_range_eq:
  "Params_range ps m i ret =
     ret @ map (\<lambda>j. i + int j) (filter (\<lambda>j. FnParam.Kind (ps ! j) AND m \<noteq> 0) [0..<length ps])"
proof (induction ps arbitrary: i ret)
  case Nil
  show ?case by simp
next
  case (Cons p ps)
  have f: "filter (\<lambda>j. FnParam.Kind ((p # ps) ! j) AND m \<noteq> 0) [0..<length (p # ps)] =
      (if FnParam.Kind p AND m \<noteq> 0 then [0] else []) @
      map Suc (filter (\<lambda>j. FnParam.Kind (ps ! j) AND m \<noteq> 0) [0..<length ps])"
    using filter_upt_Cons [of "\<lambda>q. FnParam.Kind q AND m \<noteq> 0" p ps] by simp
  show ?case
    by (simp only: f Params_range.simps Cons.IH) (simp add: o_def add.assoc)
qed

lemma Returns_range_eq:
  "Returns_range ps m i ret =
     ret @ map (\<lambda>j. i + int j) (filter (\<lambda>j. ReturnParam.Kind (ps ! j) AND m \<noteq> 0) [0..<length ps])"
proof (induction ps arbitrary: i ret)
  case Nil
  show ?case by simp
next
  case (Cons p ps)
  have f: "filter (\<lambda>j. ReturnParam.Kind ((p # ps) ! j) AND m \<noteq> 0) [0..<length (p # ps)] =
      (if ReturnParam.Kind p AND m \<noteq> 0 then [0] else []) @
      map Suc (filter (\<lambda>j. ReturnParam.Kind (ps ! j) AND m \<noteq> 0) [0..<length ps])"
    using filter_upt_Cons [of "\<lambda>q. ReturnParam.Kind q AND m \<noteq> 0" p ps] by simp
  show ?case
    by (simp only: f Returns_range.simps Cons.IH) (simp add: o_def add.assoc)
qed

lemma kinds_single_bits:
  "[FnContext, FnEventTime, FnValue, FnIter, FnReIter, FnEmit, FnType] =
     map (\<lambda>n. 2 ^ n) [0, 1, 2, 3, 4, 5, 6::nat]"
  "[RetEventTime, RetValue, RetError] = map (\<lambda>n. 2 ^ n) [0, 1, 2::nat]"
  by (simp_all add: FnContext_def FnEventTime_def FnValue_def FnIter_def FnReIter_def FnEmit_def
      FnType_def RetEventTime_def RetValue_def RetError_def)

lemma single_bit_AND: "((2::int) ^ n AND m \<noteq> 0) = bit m n"
  using and_exp_eq_0_iff_not_bit [of m n] by (simp add: and.commute)

lemma sorted_filter_upt: "sorted_wrt (<) (map int (filter P [0..<n]))"
  by (simp add: sorted_wrt_map sorted_wrt_filter del: upt_Suc)

text \<open>
  C6. \<^verbatim>\<open>Params\<close> returns the indices \<open>i\<close> of the parameter slots whose kind has a bit
  in common with the mask, in ascending order, and nothing for the mask zero;
  \<^verbatim>\<open>Returns\<close> does the same over the return slots. The seven parameter kinds are the
  powers of two from \<open>2 ^ 0\<close> to \<open>2 ^ 6\<close> and the three return kinds those from \<open>2 ^ 0\<close>
  to \<open>2 ^ 2\<close>, and a kind \<open>2 ^ n\<close> has a bit in common with a mask exactly when bit \<open>n\<close>
  of the mask is set.
\<close>

theorem Params_mask_filter:
  "Params u m = map int (filter (\<lambda>i. FnParam.Kind (Param u ! i) AND m \<noteq> 0) [0..<length (Param u)]) \<and>
   Params u 0 = [] \<and>
   sorted_wrt (<) (Params u m) \<and>
   Returns u r = map int (filter (\<lambda>i. ReturnParam.Kind (Ret u ! i) AND r \<noteq> 0) [0..<length (Ret u)]) \<and>
   Returns u 0 = [] \<and>
   sorted_wrt (<) (Returns u r) \<and>
   [FnContext, FnEventTime, FnValue, FnIter, FnReIter, FnEmit, FnType] =
     map (\<lambda>n. 2 ^ n) [0, 1, 2, 3, 4, 5, 6::nat] \<and>
   [RetEventTime, RetValue, RetError] = map (\<lambda>n. 2 ^ n) [0, 1, 2::nat] \<and>
   (\<forall>n. ((2::int) ^ n AND m \<noteq> 0) = bit m n)"
proof -
  have p: "Params u m = map int (filter (\<lambda>i. FnParam.Kind (Param u ! i) AND m \<noteq> 0) [0..<length (Param u)])"
    for m by (simp add: Params_def Params_range_eq)
  have r: "Returns u r = map int (filter (\<lambda>i. ReturnParam.Kind (Ret u ! i) AND r \<noteq> 0) [0..<length (Ret u)])"
    for r by (simp add: Returns_def Returns_range_eq)
  have p0: "Params u 0 = []" by (simp add: p)
  have r0: "Returns u 0 = []" by (simp add: r)
  have sp: "sorted_wrt (<) (Params u m)" by (simp only: p sorted_filter_upt)
  have sr: "sorted_wrt (<) (Returns u r)" by (simp only: r sorted_filter_upt)
  have b: "\<forall>n. ((2::int) ^ n AND m \<noteq> 0) = bit m n" by (simp add: single_bit_AND)
  from p [of m] p0 sp r [of r] r0 sr kinds_single_bits b show ?thesis by (intro conjI)
qed

theorem Params_mask_filter_witness:
  "Params sample_UserFn FnValue = [1, 2] \<and>
   Params sample_UserFn (FnContext OR FnValue) = [0, 1, 2] \<and>
   Params sample_UserFn FnEmit = [] \<and>
   Returns sample_UserFn RetValue = [0] \<and>
   Returns sample_UserFn RetError = []"
proof -
  have e: "map int (filter (\<lambda>i. FnParam.Kind (Param sample_UserFn ! i) AND FnValue \<noteq> 0)
             [0..<length (Param sample_UserFn)]) = [1, 2]"
    "map int (filter (\<lambda>i. FnParam.Kind (Param sample_UserFn ! i) AND (FnContext OR FnValue) \<noteq> 0)
             [0..<length (Param sample_UserFn)]) = [0, 1, 2]"
    "map int (filter (\<lambda>i. FnParam.Kind (Param sample_UserFn ! i) AND FnEmit \<noteq> 0)
             [0..<length (Param sample_UserFn)]) = []"
    "map int (filter (\<lambda>i. ReturnParam.Kind (Ret sample_UserFn ! i) AND RetValue \<noteq> 0)
             [0..<length (Ret sample_UserFn)]) = [0]"
    "map int (filter (\<lambda>i. ReturnParam.Kind (Ret sample_UserFn ! i) AND RetError \<noteq> 0)
             [0..<length (Ret sample_UserFn)]) = []"
    by code_simp+
  from Params_mask_filter [of sample_UserFn FnValue RetValue]
    Params_mask_filter [of sample_UserFn "FnContext OR FnValue" RetError]
    Params_mask_filter [of sample_UserFn FnEmit RetError] e
  show ?thesis by presburger
qed

text \<open>
  The loop of \<^verbatim>\<open>SubParams\<close> appends \<^verbatim>\<open>list[index]\<close> for each index in the order given,
  and panics at the first index that is out of range.
\<close>

lemma SubParams_range_ok:
  "\<forall>i\<in>set indices. 0 \<le> i \<and> i < int (length list) \<Longrightarrow>
     SubParams_range list indices ret = Inr (ret @ map (\<lambda>i. list ! nat i) indices)"
  by (induction indices arbitrary: ret) simp_all

lemma SubParams_range_panic:
  "\<exists>i\<in>set indices. \<not> (0 \<le> i \<and> i < int (length list)) \<Longrightarrow>
     \<exists>i\<in>set indices. \<not> (0 \<le> i \<and> i < int (length list)) \<and>
        SubParams_range list indices ret = Inl (IndexOutOfRange i (length list))"
proof (induction indices arbitrary: ret)
  case Nil
  then show ?case by simp
next
  case (Cons index indices)
  show ?case
  proof (cases "0 \<le> index \<and> index < int (length list)")
    case False
    then show ?thesis by auto
  next
    case True
    with Cons.prems have "\<exists>i\<in>set indices. \<not> (0 \<le> i \<and> i < int (length list))" by auto
    from Cons.IH [OF this, of "ret @ [list ! nat index]"] True show ?thesis by auto
  qed
qed

lemma SubReturns_range_ok:
  "\<forall>i\<in>set indices. 0 \<le> i \<and> i < int (length list) \<Longrightarrow>
     SubReturns_range list indices ret = Inr (ret @ map (\<lambda>i. list ! nat i) indices)"
  by (induction indices arbitrary: ret) simp_all

lemma SubReturns_range_panic:
  "\<exists>i\<in>set indices. \<not> (0 \<le> i \<and> i < int (length list)) \<Longrightarrow>
     \<exists>i\<in>set indices. \<not> (0 \<le> i \<and> i < int (length list)) \<and>
        SubReturns_range list indices ret = Inl (IndexOutOfRange i (length list))"
proof (induction indices arbitrary: ret)
  case Nil
  then show ?case by simp
next
  case (Cons index indices)
  show ?case
  proof (cases "0 \<le> index \<and> index < int (length list)")
    case False
    then show ?thesis by auto
  next
    case True
    with Cons.prems have "\<exists>i\<in>set indices. \<not> (0 \<le> i \<and> i < int (length list))" by auto
    from Cons.IH [OF this, of "ret @ [list ! nat index]"] True show ?thesis by auto
  qed
qed

text \<open>
  C7. When every index is in range, \<^verbatim>\<open>SubParams\<close> returns the slots at the given
  indices in the order in which the indices are given; for the indices \<open>2, 0\<close> these are
  the slot at index 2 followed by the slot at index 0. \<^verbatim>\<open>SubReturns\<close> does the same.
\<close>

theorem SubParams_selection_order:
  "((\<forall>i\<in>set indices. 0 \<le> i \<and> i < int (length ps)) \<longrightarrow>
      SubParams ps indices = Inr (map (\<lambda>i. ps ! nat i) indices)) \<and>
   (3 \<le> length ps \<longrightarrow> SubParams ps [2, 0] = Inr [ps ! 2, ps ! 0]) \<and>
   ((\<forall>i\<in>set indices. 0 \<le> i \<and> i < int (length rs)) \<longrightarrow>
      SubReturns rs indices = Inr (map (\<lambda>i. rs ! nat i) indices)) \<and>
   (3 \<le> length rs \<longrightarrow> SubReturns rs [2, 0] = Inr [rs ! 2, rs ! 0])"
proof (intro conjI impI)
  assume "\<forall>i\<in>set indices. 0 \<le> i \<and> i < int (length ps)"
  then show "SubParams ps indices = Inr (map (\<lambda>i. ps ! nat i) indices)"
    by (simp add: SubParams_def SubParams_range_ok)
next
  assume "3 \<le> length ps"
  then have "\<forall>i\<in>set [2, 0]. 0 \<le> i \<and> i < int (length ps)" by auto
  then have "SubParams ps [2, 0] = Inr (map (\<lambda>i. ps ! nat i) [2, 0])"
    by (simp only: SubParams_def SubParams_range_ok append_Nil)
  then show "SubParams ps [2, 0] = Inr [ps ! 2, ps ! 0]" by simp
next
  assume "\<forall>i\<in>set indices. 0 \<le> i \<and> i < int (length rs)"
  then show "SubReturns rs indices = Inr (map (\<lambda>i. rs ! nat i) indices)"
    by (simp add: SubReturns_def SubReturns_range_ok)
next
  assume "3 \<le> length rs"
  then have "\<forall>i\<in>set [2, 0]. 0 \<le> i \<and> i < int (length rs)" by auto
  then have "SubReturns rs [2, 0] = Inr (map (\<lambda>i. rs ! nat i) [2, 0])"
    by (simp only: SubReturns_def SubReturns_range_ok append_Nil)
  then show "SubReturns rs [2, 0] = Inr [rs ! 2, rs ! 0]" by simp
qed

theorem SubParams_selection_order_witness:
  "(3::nat) \<le> length (Param sample_UserFn) \<and>
   SubParams (Param sample_UserFn) [2, 0] =
     Inr [\<lparr>FnParam.Kind = FnValue, FnParam.T = GoInt\<rparr>,
          \<lparr>FnParam.Kind = FnContext, FnParam.T = GoContext\<rparr>] \<and>
   (0::int) < int (length (Ret sample_UserFn)) \<and>
   SubReturns (Ret sample_UserFn) [0, 0] =
     Inr [\<lparr>ReturnParam.Kind = RetValue, ReturnParam.T = GoInt\<rparr>,
          \<lparr>ReturnParam.Kind = RetValue, ReturnParam.T = GoInt\<rparr>]"
proof -
  have l: "(3::nat) \<le> length (Param sample_UserFn)" by (simp add: sample_UserFn_def)
  from SubParams_selection_order [of "[]" "Param sample_UserFn" "[]::gotype ReturnParam list"] l
  have "SubParams (Param sample_UserFn) [2, 0] = Inr [Param sample_UserFn ! 2, Param sample_UserFn ! 0]"
    by blast
  then have a: "SubParams (Param sample_UserFn) [2, 0] =
     Inr [\<lparr>FnParam.Kind = FnValue, FnParam.T = GoInt\<rparr>,
          \<lparr>FnParam.Kind = FnContext, FnParam.T = GoContext\<rparr>]"
    by (simp add: sample_UserFn_def)
  have r: "\<forall>i\<in>set [0, 0]. 0 \<le> i \<and> i < int (length (Ret sample_UserFn))"
    by (simp add: sample_UserFn_def)
  from SubParams_selection_order [of "[0, 0]" "[]::gotype FnParam list" "Ret sample_UserFn"] r
  have "SubReturns (Ret sample_UserFn) [0, 0] = Inr (map (\<lambda>i. Ret sample_UserFn ! nat i) [0, 0])"
    by blast
  then have b: "SubReturns (Ret sample_UserFn) [0, 0] =
     Inr [\<lparr>ReturnParam.Kind = RetValue, ReturnParam.T = GoInt\<rparr>,
          \<lparr>ReturnParam.Kind = RetValue, ReturnParam.T = GoInt\<rparr>]"
    by (simp add: sample_UserFn_def)
  have r': "(0::int) < int (length (Ret sample_UserFn))"
    by (simp add: sample_UserFn_def)
  from l a r' b show ?thesis by (intro conjI)
qed

text \<open>
  C10. \<^verbatim>\<open>SubParams\<close> and \<^verbatim>\<open>SubReturns\<close> have no bounds check of their own. When every
  index is at least 0 and below the length of the list, they return one slot per index;
  when some index is not, they do not return: the run-time index check panics.
\<close>

theorem SubParams_bounds:
  "((\<forall>i\<in>set indices. 0 \<le> i \<and> i < int (length ps)) \<longrightarrow>
      (\<exists>ret. SubParams ps indices = Inr ret \<and> length ret = length indices)) \<and>
   ((\<exists>i\<in>set indices. \<not> (0 \<le> i \<and> i < int (length ps))) \<longrightarrow>
      (\<exists>i\<in>set indices. \<not> (0 \<le> i \<and> i < int (length ps)) \<and>
         SubParams ps indices = Inl (IndexOutOfRange i (length ps)))) \<and>
   ((\<forall>i\<in>set indices. 0 \<le> i \<and> i < int (length rs)) \<longrightarrow>
      (\<exists>ret. SubReturns rs indices = Inr ret \<and> length ret = length indices)) \<and>
   ((\<exists>i\<in>set indices. \<not> (0 \<le> i \<and> i < int (length rs))) \<longrightarrow>
      (\<exists>i\<in>set indices. \<not> (0 \<le> i \<and> i < int (length rs)) \<and>
         SubReturns rs indices = Inl (IndexOutOfRange i (length rs))))"
proof (intro conjI impI)
  assume "\<forall>i\<in>set indices. 0 \<le> i \<and> i < int (length ps)"
  then show "\<exists>ret. SubParams ps indices = Inr ret \<and> length ret = length indices"
    by (simp add: SubParams_def SubParams_range_ok)
next
  assume "\<exists>i\<in>set indices. \<not> (0 \<le> i \<and> i < int (length ps))"
  then show "\<exists>i\<in>set indices. \<not> (0 \<le> i \<and> i < int (length ps)) \<and>
         SubParams ps indices = Inl (IndexOutOfRange i (length ps))"
    unfolding SubParams_def by (rule SubParams_range_panic)
next
  assume "\<forall>i\<in>set indices. 0 \<le> i \<and> i < int (length rs)"
  then show "\<exists>ret. SubReturns rs indices = Inr ret \<and> length ret = length indices"
    by (simp add: SubReturns_def SubReturns_range_ok)
next
  assume "\<exists>i\<in>set indices. \<not> (0 \<le> i \<and> i < int (length rs))"
  then show "\<exists>i\<in>set indices. \<not> (0 \<le> i \<and> i < int (length rs)) \<and>
         SubReturns rs indices = Inl (IndexOutOfRange i (length rs))"
    unfolding SubReturns_def by (rule SubReturns_range_panic)
qed

theorem SubParams_bounds_witness:
  "(1::int) < int (length (Param sample_UserFn)) \<and>
   (\<exists>ret. SubParams (Param sample_UserFn) [1, 1, 0] = Inr ret \<and> length ret = 3) \<and>
   \<not> (3::int) < int (length (Param sample_UserFn)) \<and>
   SubParams (Param sample_UserFn) [0, 3, -1] = Inl (IndexOutOfRange 3 3) \<and>
   SubReturns (Ret sample_UserFn) [-1] = Inl (IndexOutOfRange (-1) 1)"
proof -
  have h1: "\<forall>i\<in>set [1, 1, 0]. 0 \<le> i \<and> i < int (length (Param sample_UserFn))"
    by (simp add: sample_UserFn_def)
  from SubParams_bounds [of "[1, 1, 0]" "Param sample_UserFn" "[]::gotype ReturnParam list"] h1
  have "\<exists>ret. SubParams (Param sample_UserFn) [1, 1, 0] = Inr ret \<and> length ret = length [1, 1, 0::int]"
    by blast
  then have a: "\<exists>ret. SubParams (Param sample_UserFn) [1, 1, 0] = Inr ret \<and> length ret = 3"
    by (simp add: eval_nat_numeral)
  have h2: "\<exists>i\<in>set [0, 3, -1]. \<not> (0 \<le> i \<and> i < int (length (Param sample_UserFn)))"
    by (simp add: sample_UserFn_def)
  from SubParams_bounds [of "[0, 3, -1]" "Param sample_UserFn" "[]::gotype ReturnParam list"] h2
  have "\<exists>i\<in>set [0, 3, -1]. SubParams (Param sample_UserFn) [0, 3, -1] =
          Inl (IndexOutOfRange i (length (Param sample_UserFn)))"
    by blast
  then have "\<exists>p. SubParams (Param sample_UserFn) [0, 3, -1] = Inl p" by blast
  moreover have "SubParams (Param sample_UserFn) [0, 3, -1] = Inl (IndexOutOfRange 3 3)"
    by (simp add: SubParams_def sample_UserFn_def)
  ultimately have b: "SubParams (Param sample_UserFn) [0, 3, -1] = Inl (IndexOutOfRange 3 3)"
    by blast
  have h3: "\<exists>i\<in>set [-1]. \<not> (0 \<le> i \<and> i < int (length (Ret sample_UserFn)))"
    by simp
  from SubParams_bounds [of "[-1]" "[]::gotype FnParam list" "Ret sample_UserFn"] h3
  have "\<exists>i\<in>set [-1]. SubReturns (Ret sample_UserFn) [-1] =
          Inl (IndexOutOfRange i (length (Ret sample_UserFn)))"
    by blast
  then have c: "SubReturns (Ret sample_UserFn) [-1] = Inl (IndexOutOfRange (-1) 1)"
    by (simp add: sample_UserFn_def)
  have g1: "(1::int) < int (length (Param sample_UserFn))"
    and g2: "\<not> (3::int) < int (length (Param sample_UserFn))"
    by (simp_all add: sample_UserFn_def)
  from g1 a g2 b c show ?thesis by (intro conjI)
qed

text \<open>
  A finder started at index \<open>i\<close> returns the position of the first slot of the kind it
  looks for, and \<open>(-1, False)\<close> when there is none.
\<close>

lemma Context_range_found:
  "j < length ps \<Longrightarrow> FnParam.Kind (ps ! j) = FnContext \<Longrightarrow> \<forall>k<j. FnParam.Kind (ps ! k) \<noteq> FnContext \<Longrightarrow>
     Context_range ps i = (i + int j, True)"
proof (induction ps arbitrary: i j)
  case Nil
  then show ?case by simp
next
  case (Cons p ps)
  show ?case
  proof (cases j)
    case 0
    with Cons.prems show ?thesis by simp
  next
    case (Suc j')
    with Cons.prems have p: "FnParam.Kind p \<noteq> FnContext" by auto
    from Suc Cons.prems have "j' < length ps" "FnParam.Kind (ps ! j') = FnContext"
      "\<forall>k<j'. FnParam.Kind (ps ! k) \<noteq> FnContext"
      by auto
    from Cons.IH [OF this, of "i + 1"] p Suc show ?thesis by simp
  qed
qed

lemma Context_range_none:
  "\<forall>p\<in>set ps. FnParam.Kind p \<noteq> FnContext \<Longrightarrow> Context_range ps i = (-1, False)"
  by (induction ps arbitrary: i) simp_all

lemma Type_range_found:
  "j < length ps \<Longrightarrow> FnParam.Kind (ps ! j) = FnType \<Longrightarrow> \<forall>k<j. FnParam.Kind (ps ! k) \<noteq> FnType \<Longrightarrow>
     Type_range ps i = (i + int j, True)"
proof (induction ps arbitrary: i j)
  case Nil
  then show ?case by simp
next
  case (Cons p ps)
  show ?case
  proof (cases j)
    case 0
    with Cons.prems show ?thesis by simp
  next
    case (Suc j')
    with Cons.prems have p: "FnParam.Kind p \<noteq> FnType" by auto
    from Suc Cons.prems have "j' < length ps" "FnParam.Kind (ps ! j') = FnType"
      "\<forall>k<j'. FnParam.Kind (ps ! k) \<noteq> FnType"
      by auto
    from Cons.IH [OF this, of "i + 1"] p Suc show ?thesis by simp
  qed
qed

lemma Type_range_none:
  "\<forall>p\<in>set ps. FnParam.Kind p \<noteq> FnType \<Longrightarrow> Type_range ps i = (-1, False)"
  by (induction ps arbitrary: i) simp_all

lemma EventTime_range_found:
  "j < length ps \<Longrightarrow> FnParam.Kind (ps ! j) = FnEventTime \<Longrightarrow> \<forall>k<j. FnParam.Kind (ps ! k) \<noteq> FnEventTime \<Longrightarrow>
     EventTime_range ps i = (i + int j, True)"
proof (induction ps arbitrary: i j)
  case Nil
  then show ?case by simp
next
  case (Cons p ps)
  show ?case
  proof (cases j)
    case 0
    with Cons.prems show ?thesis by simp
  next
    case (Suc j')
    with Cons.prems have p: "FnParam.Kind p \<noteq> FnEventTime" by auto
    from Suc Cons.prems have "j' < length ps" "FnParam.Kind (ps ! j') = FnEventTime"
      "\<forall>k<j'. FnParam.Kind (ps ! k) \<noteq> FnEventTime"
      by auto
    from Cons.IH [OF this, of "i + 1"] p Suc show ?thesis by simp
  qed
qed

lemma EventTime_range_none:
  "\<forall>p\<in>set ps. FnParam.Kind p \<noteq> FnEventTime \<Longrightarrow> EventTime_range ps i = (-1, False)"
  by (induction ps arbitrary: i) simp_all

lemma Error_range_found:
  "j < length ps \<Longrightarrow> ReturnParam.Kind (ps ! j) = RetError \<Longrightarrow> \<forall>k<j. ReturnParam.Kind (ps ! k) \<noteq> RetError \<Longrightarrow>
     Error_range ps i = (i + int j, True)"
proof (induction ps arbitrary: i j)
  case Nil
  then show ?case by simp
next
  case (Cons p ps)
  show ?case
  proof (cases j)
    case 0
    with Cons.prems show ?thesis by simp
  next
    case (Suc j')
    with Cons.prems have p: "ReturnParam.Kind p \<noteq> RetError" by auto
    from Suc Cons.prems have "j' < length ps" "ReturnParam.Kind (ps ! j') = RetError"
      "\<forall>k<j'. ReturnParam.Kind (ps ! k) \<noteq> RetError"
      by auto
    from Cons.IH [OF this, of "i + 1"] p Suc show ?thesis by simp
  qed
qed

lemma Error_range_none:
  "\<forall>p\<in>set ps. ReturnParam.Kind p \<noteq> RetError \<Longrightarrow> Error_range ps i = (-1, False)"
  by (induction ps arbitrary: i) simp_all

lemma OutEventTime_range_found:
  "j < length ps \<Longrightarrow> ReturnParam.Kind (ps ! j) = RetEventTime \<Longrightarrow> \<forall>k<j. ReturnParam.Kind (ps ! k) \<noteq> RetEventTime \<Longrightarrow>
     OutEventTime_range ps i = (i + int j, True)"
proof (induction ps arbitrary: i j)
  case Nil
  then show ?case by simp
next
  case (Cons p ps)
  show ?case
  proof (cases j)
    case 0
    with Cons.prems show ?thesis by simp
  next
    case (Suc j')
    with Cons.prems have p: "ReturnParam.Kind p \<noteq> RetEventTime" by auto
    from Suc Cons.prems have "j' < length ps" "ReturnParam.Kind (ps ! j') = RetEventTime"
      "\<forall>k<j'. ReturnParam.Kind (ps ! k) \<noteq> RetEventTime"
      by auto
    from Cons.IH [OF this, of "i + 1"] p Suc show ?thesis by simp
  qed
qed

lemma OutEventTime_range_none:
  "\<forall>p\<in>set ps. ReturnParam.Kind p \<noteq> RetEventTime \<Longrightarrow> OutEventTime_range ps i = (-1, False)"
  by (induction ps arbitrary: i) simp_all

lemma New_two_contexts:
  assumes "ValueKind fn = reflect_Func" and "In fn = [reflectx_Context env, reflectx_Context env]"
    and "Out fn = [reflectx_Error env, reflectx_Error env]"
  shows "\<exists>u. New env fn = (Some u, None) \<and> Context u = (0, True) \<and> Error u = (0, True) \<and>
           map FnParam.Kind (Param u) = [FnContext, FnContext] \<and>
           map ReturnParam.Kind (Ret u) = [RetError, RetError]"
proof -
  have p: "find (\<lambda>t. New_param_switch env t = None) (In fn) = None"
    using assms by (simp add: New_param_switch_def)
  have r: "find (\<lambda>t. New_return_switch env t = None) (Out fn) = None"
    using assms by (simp add: New_return_switch_def)
  from New_ok [OF assms(1) p r] assms(2,3) show ?thesis
    by (simp add: Context_def Error_def New_param_switch_def New_return_switch_def)
qed

text \<open>
  C8. \<^verbatim>\<open>Context\<close>, \<^verbatim>\<open>Type\<close> and \<^verbatim>\<open>EventTime\<close> over the parameter slots, and
  \<^verbatim>\<open>Error\<close> and \<^verbatim>\<open>OutEventTime\<close> over the return slots, return \<open>(j, True)\<close> for
  the first index \<open>j\<close> whose kind is the one looked for, and \<open>(-1, False)\<close> when no slot
  has that kind. \<^verbatim>\<open>New\<close> accepts a function with two context parameters and two
  error returns, and the finders return index 0 on its descriptor.
\<close>

theorem finders_first_occurrence:
  "(\<forall>j<length (Param u).
      FnParam.Kind (Param u ! j) = FnContext \<and> (\<forall>k<j. FnParam.Kind (Param u ! k) \<noteq> FnContext) \<longrightarrow>
      Context u = (int j, True)) \<and>
   ((\<forall>p\<in>set (Param u). FnParam.Kind p \<noteq> FnContext) \<longrightarrow> Context u = (-1, False)) \<and>
   (\<forall>j<length (Param u).
      FnParam.Kind (Param u ! j) = FnType \<and> (\<forall>k<j. FnParam.Kind (Param u ! k) \<noteq> FnType) \<longrightarrow>
      Type u = (int j, True)) \<and>
   ((\<forall>p\<in>set (Param u). FnParam.Kind p \<noteq> FnType) \<longrightarrow> Type u = (-1, False)) \<and>
   (\<forall>j<length (Param u).
      FnParam.Kind (Param u ! j) = FnEventTime \<and> (\<forall>k<j. FnParam.Kind (Param u ! k) \<noteq> FnEventTime) \<longrightarrow>
      EventTime u = (int j, True)) \<and>
   ((\<forall>p\<in>set (Param u). FnParam.Kind p \<noteq> FnEventTime) \<longrightarrow> EventTime u = (-1, False)) \<and>
   (\<forall>j<length (Ret u).
      ReturnParam.Kind (Ret u ! j) = RetError \<and> (\<forall>k<j. ReturnParam.Kind (Ret u ! k) \<noteq> RetError) \<longrightarrow>
      Error u = (int j, True)) \<and>
   ((\<forall>p\<in>set (Ret u). ReturnParam.Kind p \<noteq> RetError) \<longrightarrow> Error u = (-1, False)) \<and>
   (\<forall>j<length (Ret u).
      ReturnParam.Kind (Ret u ! j) = RetEventTime \<and> (\<forall>k<j. ReturnParam.Kind (Ret u ! k) \<noteq> RetEventTime) \<longrightarrow>
      OutEventTime u = (int j, True)) \<and>
   ((\<forall>p\<in>set (Ret u). ReturnParam.Kind p \<noteq> RetEventTime) \<longrightarrow> OutEventTime u = (-1, False)) \<and>
   (ValueKind fn = reflect_Func \<and> In fn = [reflectx_Context env, reflectx_Context env] \<and>
      Out fn = [reflectx_Error env, reflectx_Error env] \<longrightarrow>
      (\<exists>d. New env fn = (Some d, None) \<and> Context d = (0, True) \<and> Error d = (0, True) \<and>
           map FnParam.Kind (Param d) = [FnContext, FnContext] \<and>
           map ReturnParam.Kind (Ret d) = [RetError, RetError]))"
proof -
  have Context_f: "\<forall>j<length (Param u).
      FnParam.Kind (Param u ! j) = FnContext \<and> (\<forall>k<j. FnParam.Kind (Param u ! k) \<noteq> FnContext) \<longrightarrow>
      Context u = (int j, True)"
    using Context_range_found [of _ "Param u" 0] by (simp add: Context_def)
  have Context_n: "(\<forall>p\<in>set (Param u). FnParam.Kind p \<noteq> FnContext) \<longrightarrow> Context u = (-1, False)"
    by (simp add: Context_def Context_range_none)
  have Type_f: "\<forall>j<length (Param u).
      FnParam.Kind (Param u ! j) = FnType \<and> (\<forall>k<j. FnParam.Kind (Param u ! k) \<noteq> FnType) \<longrightarrow>
      Type u = (int j, True)"
    using Type_range_found [of _ "Param u" 0] by (simp add: Type_def)
  have Type_n: "(\<forall>p\<in>set (Param u). FnParam.Kind p \<noteq> FnType) \<longrightarrow> Type u = (-1, False)"
    by (simp add: Type_def Type_range_none)
  have EventTime_f: "\<forall>j<length (Param u).
      FnParam.Kind (Param u ! j) = FnEventTime \<and> (\<forall>k<j. FnParam.Kind (Param u ! k) \<noteq> FnEventTime) \<longrightarrow>
      EventTime u = (int j, True)"
    using EventTime_range_found [of _ "Param u" 0] by (simp add: EventTime_def)
  have EventTime_n: "(\<forall>p\<in>set (Param u). FnParam.Kind p \<noteq> FnEventTime) \<longrightarrow> EventTime u = (-1, False)"
    by (simp add: EventTime_def EventTime_range_none)
  have Error_f: "\<forall>j<length (Ret u).
      ReturnParam.Kind (Ret u ! j) = RetError \<and> (\<forall>k<j. ReturnParam.Kind (Ret u ! k) \<noteq> RetError) \<longrightarrow>
      Error u = (int j, True)"
    using Error_range_found [of _ "Ret u" 0] by (simp add: Error_def)
  have Error_n: "(\<forall>p\<in>set (Ret u). ReturnParam.Kind p \<noteq> RetError) \<longrightarrow> Error u = (-1, False)"
    by (simp add: Error_def Error_range_none)
  have OutEventTime_f: "\<forall>j<length (Ret u).
      ReturnParam.Kind (Ret u ! j) = RetEventTime \<and> (\<forall>k<j. ReturnParam.Kind (Ret u ! k) \<noteq> RetEventTime) \<longrightarrow>
      OutEventTime u = (int j, True)"
    using OutEventTime_range_found [of _ "Ret u" 0] by (simp add: OutEventTime_def)
  have OutEventTime_n: "(\<forall>p\<in>set (Ret u). ReturnParam.Kind p \<noteq> RetEventTime) \<longrightarrow> OutEventTime u = (-1, False)"
    by (simp add: OutEventTime_def OutEventTime_range_none)
  have two: "ValueKind fn = reflect_Func \<and> In fn = [reflectx_Context env, reflectx_Context env] \<and>
      Out fn = [reflectx_Error env, reflectx_Error env] \<longrightarrow>
      (\<exists>d. New env fn = (Some d, None) \<and> Context d = (0, True) \<and> Error d = (0, True) \<and>
           map FnParam.Kind (Param d) = [FnContext, FnContext] \<and>
           map ReturnParam.Kind (Ret d) = [RetError, RetError])"
    using New_two_contexts [of fn env] by blast
  from Context_f Context_n Type_f Type_n EventTime_f EventTime_n Error_f Error_n OutEventTime_f OutEventTime_n two show ?thesis by (intro conjI)
qed

theorem finders_first_occurrence_witness:
  "New sample_env (func_value 0 [GoInt, GoContext, GoContext] [GoError, GoError]) =
     (Some sample_dup_UserFn, None) \<and>
   Context sample_dup_UserFn = (1, True) \<and>
   Type sample_dup_UserFn = (-1, False) \<and>
   Error sample_dup_UserFn = (0, True) \<and>
   (\<exists>d. New sample_env (func_value 0 [GoContext, GoContext] [GoError, GoError]) = (Some d, None) \<and>
        Context d = (0, True) \<and> Error d = (0, True))"
proof -
  let ?u = sample_dup_UserFn
  let ?fn = "func_value 0 [GoContext, GoContext] [GoError, GoError]"
  note t = finders_first_occurrence [of ?u ?fn sample_env]
  have n: "New sample_env (func_value 0 [GoInt, GoContext, GoContext] [GoError, GoError]) =
     (Some sample_dup_UserFn, None)"
    by code_simp
  have c: "(1::nat) < length (Param ?u)" "FnParam.Kind (Param ?u ! 1) = FnContext"
    "\<forall>k<1. FnParam.Kind (Param ?u ! k) \<noteq> FnContext"
    by (simp_all add: sample_dup_UserFn_def FnContext_def FnValue_def)
  with t have "Context ?u = (int 1, True)" by blast
  then have c': "Context ?u = (1, True)" by simp
  have "\<forall>p\<in>set (Param ?u). FnParam.Kind p \<noteq> FnType"
    by (simp add: sample_dup_UserFn_def FnContext_def FnValue_def FnType_def)
  with t have ty: "Type ?u = (-1, False)" by blast
  have e: "(0::nat) < length (Ret ?u)" "ReturnParam.Kind (Ret ?u ! 0) = RetError"
    "\<forall>k<0. ReturnParam.Kind (Ret ?u ! k) \<noteq> RetError"
    by (simp_all add: sample_dup_UserFn_def)
  with t have "Error ?u = (int 0, True)" by blast
  then have e': "Error ?u = (0, True)" by simp
  have "ValueKind ?fn = reflect_Func \<and> In ?fn = [reflectx_Context sample_env, reflectx_Context sample_env] \<and>
      Out ?fn = [reflectx_Error sample_env, reflectx_Error sample_env]"
    by (simp add: func_value_def sample_env_def)
  with t have d: "\<exists>d. New sample_env ?fn = (Some d, None) \<and> Context d = (0, True) \<and> Error d = (0, True)"
    by blast
  from n c' ty e' d show ?thesis by (intro conjI)
qed

section \<open>The error messages of New\<close>

lemma sublist_message:
  "sublist name (p @ name @ c @ ty)" "sublist ty (p @ name @ c @ ty)"
proof -
  show "sublist name (p @ name @ c @ ty)" by (rule sublist_appendI)
  have "sublist ty ((p @ name @ c) @ ty @ [])" by (rule sublist_appendI)
  then show "sublist ty (p @ name @ c @ ty)" by simp
qed

text \<open>
  C5, as the specification states it, asks for the position of the offending parameter
  or return value in the error. The format arguments of the two \<^verbatim>\<open>fmt.Errorf\<close> calls
  are the name and the type only. For \<^verbatim>\<open>func(int, chan int)\<close> the offending
  parameter is at index 1 and the message does not contain \<open>1\<close>; moving the channel
  parameter to index 0 gives the same result.
\<close>

theorem New_error_position_counterexample:
  "New sample_env (func_value 0 [GoInt, GoChan GoInt] []) =
     (None, Some ''bad paramenter type for main.f: chan int'') \<and>
   New_param_switch sample_env GoInt = Some FnValue \<and>
   New_param_switch sample_env (GoChan GoInt) = None \<and>
   \<not> sublist ''1'' ''bad paramenter type for main.f: chan int'' \<and>
   New sample_env (func_value 0 [GoChan GoInt, GoInt] []) =
     New sample_env (func_value 0 [GoInt, GoChan GoInt] [])"
  by code_simp

text \<open>
  C5, amended. When \<^verbatim>\<open>New\<close> fails on a function value, the error message is
  \<^verbatim>\<open>bad paramenter type for\<close>, the name, a colon and the rendering of the first
  parameter type that passes no test, or, when every parameter type passes one,
  \<^verbatim>\<open>bad return type for\<close>, the name, a colon and the rendering of the first return
  type that passes no test. The name and the rendering of the type occur in the
  message; the message has no other variable part.
\<close>

theorem New_error_message:
  "ValueKind fn = reflect_Func \<and> snd (New env fn) = Some e \<longrightarrow>
     sublist (FuncForPC_Name env (Pointer fn)) e \<and>
     ((\<exists>i<length (In fn).
         New_param_switch env (In fn ! i) = None \<and>
         (\<forall>j<i. New_param_switch env (In fn ! j) \<noteq> None) \<and>
         e = ''bad paramenter type for '' @ FuncForPC_Name env (Pointer fn) @ '': '' @
             Type_String env (In fn ! i) \<and>
         sublist (Type_String env (In fn ! i)) e) \<or>
      (\<exists>i<length (Out fn).
         (\<forall>t\<in>set (In fn). New_param_switch env t \<noteq> None) \<and>
         New_return_switch env (Out fn ! i) = None \<and>
         (\<forall>j<i. New_return_switch env (Out fn ! j) \<noteq> None) \<and>
         e = ''bad return type for '' @ FuncForPC_Name env (Pointer fn) @ '': '' @
             Type_String env (Out fn ! i) \<and>
         sublist (Type_String env (Out fn ! i)) e))"
proof (intro impI)
  let ?name = "FuncForPC_Name env (Pointer fn)"
  assume a: "ValueKind fn = reflect_Func \<and> snd (New env fn) = Some e"
  then have k: "ValueKind fn = reflect_Func" and e: "snd (New env fn) = Some e" by simp_all
  show "sublist ?name e \<and>
     ((\<exists>i<length (In fn).
         New_param_switch env (In fn ! i) = None \<and>
         (\<forall>j<i. New_param_switch env (In fn ! j) \<noteq> None) \<and>
         e = ''bad paramenter type for '' @ ?name @ '': '' @ Type_String env (In fn ! i) \<and>
         sublist (Type_String env (In fn ! i)) e) \<or>
      (\<exists>i<length (Out fn).
         (\<forall>t\<in>set (In fn). New_param_switch env t \<noteq> None) \<and>
         New_return_switch env (Out fn ! i) = None \<and>
         (\<forall>j<i. New_return_switch env (Out fn ! j) \<noteq> None) \<and>
         e = ''bad return type for '' @ ?name @ '': '' @ Type_String env (Out fn ! i) \<and>
         sublist (Type_String env (Out fn ! i)) e))"
  proof (cases "find (\<lambda>t. New_param_switch env t = None) (In fn)")
    case (Some t)
    then obtain i where i: "i < length (In fn)" "New_param_switch env (In fn ! i) = None"
      "t = In fn ! i" "\<forall>j<i. New_param_switch env (In fn ! j) \<noteq> None"
      by (auto simp: find_Some_iff)
    from New_bad_param [OF k Some] e i(3)
    have m: "e = ''bad paramenter type for '' @ ?name @ '': '' @ Type_String env (In fn ! i)"
      by simp
    have s1: "sublist ?name e" and s2: "sublist (Type_String env (In fn ! i)) e"
      unfolding m by (rule sublist_message)+
    from i(1,2,4) m s2 have "\<exists>i<length (In fn).
         New_param_switch env (In fn ! i) = None \<and>
         (\<forall>j<i. New_param_switch env (In fn ! j) \<noteq> None) \<and>
         e = ''bad paramenter type for '' @ ?name @ '': '' @ Type_String env (In fn ! i) \<and>
         sublist (Type_String env (In fn ! i)) e"
      by blast
    with s1 show ?thesis by blast
  next
    case p: None
    then have pa: "\<forall>t\<in>set (In fn). New_param_switch env t \<noteq> None"
      by (simp add: find_None_iff)
    show ?thesis
    proof (cases "find (\<lambda>t. New_return_switch env t = None) (Out fn)")
      case (Some t)
      then obtain i where i: "i < length (Out fn)" "New_return_switch env (Out fn ! i) = None"
        "t = Out fn ! i" "\<forall>j<i. New_return_switch env (Out fn ! j) \<noteq> None"
        by (auto simp: find_Some_iff)
      from New_bad_return [OF k p Some] e i(3)
      have m: "e = ''bad return type for '' @ ?name @ '': '' @ Type_String env (Out fn ! i)"
        by simp
      have s1: "sublist ?name e" and s2: "sublist (Type_String env (Out fn ! i)) e"
        unfolding m by (rule sublist_message)+
      from pa i(1,2,4) m s2 have "\<exists>i<length (Out fn).
         (\<forall>t\<in>set (In fn). New_param_switch env t \<noteq> None) \<and>
         New_return_switch env (Out fn ! i) = None \<and>
         (\<forall>j<i. New_return_switch env (Out fn ! j) \<noteq> None) \<and>
         e = ''bad return type for '' @ ?name @ '': '' @ Type_String env (Out fn ! i) \<and>
         sublist (Type_String env (Out fn ! i)) e"
        by blast
      with s1 show ?thesis by blast
    next
      case r: None
      from New_ok [OF k p r] e show ?thesis by simp
    qed
  qed
qed

theorem New_error_message_witness:
  "ValueKind (func_value 0 [GoInt, GoChan GoInt] []) = reflect_Func \<and>
   snd (New sample_env (func_value 0 [GoInt, GoChan GoInt] [])) =
     Some ''bad paramenter type for main.f: chan int'' \<and>
   sublist (FuncForPC_Name sample_env (Pointer (func_value 0 [GoInt, GoChan GoInt] [])))
     ''bad paramenter type for main.f: chan int'' \<and>
   FuncForPC_Name sample_env (Pointer (func_value 0 [GoInt, GoChan GoInt] [])) = ''main.f'' \<and>
   ValueKind (func_value 0 [GoInt] [GoEventTime, GoFunc [] []]) = reflect_Func \<and>
   snd (New sample_env (func_value 0 [GoInt] [GoEventTime, GoFunc [] []])) =
     Some ''bad return type for main.f: func()'' \<and>
   sublist (FuncForPC_Name sample_env (Pointer (func_value 0 [GoInt] [GoEventTime, GoFunc [] []])))
     ''bad return type for main.f: func()''"
proof -
  let ?f = "func_value 0 [GoInt, GoChan GoInt] []"
  let ?g = "func_value 0 [GoInt] [GoEventTime, GoFunc [] []]"
  have k1: "ValueKind ?f = reflect_Func" by (simp add: func_value_def)
  have e1: "snd (New sample_env ?f) = Some ''bad paramenter type for main.f: chan int''"
    by code_simp
  from New_error_message [of ?f sample_env "''bad paramenter type for main.f: chan int''"] k1 e1
  have s1: "sublist (FuncForPC_Name sample_env (Pointer ?f)) ''bad paramenter type for main.f: chan int''"
    by blast
  have n1: "FuncForPC_Name sample_env (Pointer ?f) = ''main.f''"
    by (simp add: func_value_def sample_env_def sample_Name_def)
  have k2: "ValueKind ?g = reflect_Func" by (simp add: func_value_def)
  have e2: "snd (New sample_env ?g) = Some ''bad return type for main.f: func()''"
    by code_simp
  from New_error_message [of ?g sample_env "''bad return type for main.f: func()''"] k2 e2
  have s2: "sublist (FuncForPC_Name sample_env (Pointer ?g)) ''bad return type for main.f: func()''"
    by blast
  from k1 e1 s1 n1 k2 e2 s2 show ?thesis by (intro conjI)
qed

end
